theory Spec2Isabelle
  imports Complex_Main
begin

section \<open>BundleObservation: the per-observation parameter model of the bundle adjustment\<close>

text \<open>
  A shallow embedding of \<^verbatim>\<open>BundleObservation.cpp\<close>. A finite C++ \<^verbatim>\<open>double\<close> is kept as
  the \<^typ>\<open>real\<close> it denotes; the additions of \<^verbatim>\<open>applyParameterCorrections\<close> round as
  binary64 addition does, the arithmetic of the weights and of the report is exact. A
  coefficient count is a \<^typ>\<open>nat\<close>, a
  \<^verbatim>\<open>std::vector\<close>, \<^verbatim>\<open>QList\<close> or ublas vector as a list, a pointer as an optional
  address into an explicit store. Undefined behaviour of the C++ (an index out of range,
  a null pointer that is dereferenced, a ublas size mismatch) is a \<open>fault\<close>; an
  \<^verbatim>\<open>IException\<close> is a value of its own, since the code catches it.
\<close>

subsection \<open>Faults, exceptions and loops\<close>

datatype fault =
    NullDereference
  | ListIndexOutOfRange
  | VectorIndexOutOfRange
  | VectorSizeMismatch
  | DivisionByZero

datatype ErrorType = Unknown | User | Programmer | Io

datatype IException =
    IException ErrorType string
  | IExceptionCaused IException ErrorType string

text \<open>Sequencing of two steps, the first of which may fault.\<close>

definition andThen :: "fault + 'a \<Rightarrow> ('a \<Rightarrow> fault + 'b) \<Rightarrow> fault + 'b" where
  "andThen r f = (case r of Inl e \<Rightarrow> Inl e | Inr x \<Rightarrow> f x)"

text \<open>\<^verbatim>\<open>for (int i = ...) body\<close> over the given indices, stopping at the first fault.\<close>

primrec forEach :: "nat list \<Rightarrow> (nat \<Rightarrow> 's \<Rightarrow> fault + 's) \<Rightarrow> 's \<Rightarrow> fault + 's" where
  "forEach [] body s = Inr s"
| "forEach (i # rest) body s =
     (case body i s of Inl e \<Rightarrow> Inl e | Inr s' \<Rightarrow> forEach rest body s')"

text \<open>\<^verbatim>\<open>for (int i = 0; i < n; i++) body\<close>.\<close>

definition forLoop :: "nat \<Rightarrow> (nat \<Rightarrow> 's \<Rightarrow> fault + 's) \<Rightarrow> 's \<Rightarrow> fault + 's" where
  "forLoop n body s = forEach [0..<n] body s"

subsection \<open>Addition of doubles\<close>

text \<open>
  \<^verbatim>\<open>a += b\<close> on \<^verbatim>\<open>double\<close>s is IEEE 754 binary64 addition: the exact sum, rounded to the
  nearest number \<open>m \<cdot> 2\<^sup>e\<close> with \<open>\<bar>m\<bar> < 2\<^sup>5\<^sup>3\<close> and \<open>-1074 \<le> e\<close>, a tie going to the even
  \<open>m\<close>. A sum whose rounding has magnitude \<open>2\<^sup>1\<^sup>0\<^sup>2\<^sup>4\<close> or more is infinite in the C++;
  \<^typ>\<open>real\<close> has no such value, and \<open>dadd\<close> is the sum of the C++ only where it is below that
  bound. The entries of the vectors are taken to be doubles.
\<close>

text \<open>The number of binary digits of a positive integer.\<close>

function bitLength :: "int \<Rightarrow> nat" where
  "bitLength n = (if n \<le> 0 then 0 else Suc (bitLength (n div 2)))"
  by pat_completeness auto
termination
  by (relation "measure nat") auto

declare bitLength.simps [simp del]

text \<open>\<open>\<lfloor>log\<^sub>2 x\<rfloor>\<close> for a positive \<open>x\<close>.\<close>

definition floorLog2 :: "real \<Rightarrow> int" where
  "floorLog2 x = (if 1 \<le> x then int (bitLength \<lfloor>x\<rfloor>) - 1
                  else - int (bitLength (\<lceil>1 / x\<rceil> - 1)))"

definition pow2 :: "int \<Rightarrow> real" where
  "pow2 e = (if 0 \<le> e then 2 ^ nat e else 1 / 2 ^ nat (- e))"

text \<open>The nearest integer, a tie going to the even one.\<close>

definition roundEven :: "real \<Rightarrow> int" where
  "roundEven q =
     (let f = \<lfloor>q\<rfloor>; r = q - of_int f
      in if r < 1 / 2 then f else if 1 / 2 < r then f + 1
         else if even f then f else f + 1)"

text \<open>The nearest double: the spacing of the doubles around \<open>x\<close> is \<open>2\<^sup>e\<close>.\<close>

definition roundDouble :: "real \<Rightarrow> real" where
  "roundDouble x =
     (if x = 0 then 0
      else let e = max (floorLog2 \<bar>x\<bar> - 52) (- 1074)
           in of_int (roundEven (x / pow2 e)) * pow2 e)"

definition dadd :: "real \<Rightarrow> real \<Rightarrow> real" where
  "dadd x y = roundDouble (x + y)"

text \<open>The sum is finite in the C++ as well.\<close>

definition finiteDouble :: "real \<Rightarrow> bool" where
  "finiteDouble x = (\<bar>x\<bar> < 2 ^ 1024)"

subsection \<open>Collaborators that the file only uses\<close>

type_synonym addr = nat

type_synonym InterpolationType = nat

text \<open>
  Modelled from the spec: the solve options of \<^verbatim>\<open>BundleObservationSolveSettings\<close>, whose
  declaration is not part of the sources at hand (section 3: none, position only,
  position and velocity, position, velocity and acceleration; pointing analogous).
\<close>

datatype InstrumentPositionSolveOption =
  NoPositionFactors | PositionOnly | PositionVelocity | PositionVelocityAcceleration

datatype InstrumentPointingSolveOption =
  NoPointingFactors | AnglesOnly | AnglesVelocity | AnglesVelocityAcceleration

text \<open>
  Modelled from the spec: \<^verbatim>\<open>BundleObservationSolveSettings\<close> as the record of what its
  accessors return (section 3). The fields carry the accessors' names.
\<close>

record BundleObservationSolveSettings =
  instrumentPositionSolveOption :: InstrumentPositionSolveOption
  instrumentPointingSolveOption :: InstrumentPointingSolveOption
  numberCameraPositionCoefficientsSolved :: nat
  numberCameraAngleCoefficientsSolved :: nat
  solveTwist :: bool
  spkDegree :: nat
  spkSolveDegree :: nat
  ckDegree :: nat
  ckSolveDegree :: nat
  positionInterpolationType :: InterpolationType
  pointingInterpolationType :: InterpolationType
  aprioriPositionSigmas :: "real list"
  aprioriPointingSigmas :: "real list"

text \<open>
  Modelled from the spec: the constants \<^verbatim>\<open>DEG2RAD\<close>, \<^verbatim>\<open>RAD2DEG\<close> and \<^verbatim>\<open>Isis::Null\<close>
  are declared in headers that are not part of the sources at hand. \<^verbatim>\<open>Isis::Null\<close> is the
  "unknown" sentinel of section 3, a reserved double far below every valid value
  (bit pattern FFEFFFFFFFFFFFFB), and \<^verbatim>\<open>IsSpecial\<close> recognises the reserved doubles,
  those below the valid minimum (bit pattern FFEFFFFFFFFFFFFA).
\<close>

definition DEG2RAD :: real where
  "DEG2RAD = pi / 180"

definition RAD2DEG :: real where
  "RAD2DEG = 180 / pi"

definition Isis_Null :: real where
  "Isis_Null = - ((2 ^ 53 - 5) * 2 ^ 971)"

definition VALID_MIN8 :: real where
  "VALID_MIN8 = - ((2 ^ 53 - 6) * 2 ^ 971)"

definition IsSpecial :: "real \<Rightarrow> bool" where
  "IsSpecial d = (d < VALID_MIN8)"

text \<open>
  Modelled from the spec: a trajectory source (\<^verbatim>\<open>SpicePosition\<close>, \<^verbatim>\<open>SpiceRotation\<close>),
  section 6: three coefficient vectors, a base time, a time scale and a polynomial
  degree, with get and set of each. \<^verbatim>\<open>GetPolynomial\<close> assigns the stored vectors to its
  three output arguments, whatever these held before.
\<close>

record TrajectorySource =
  polynomialDegree :: nat
  baseTime :: real
  timeScale :: real
  coefficients1 :: "real list"
  coefficients2 :: "real list"
  coefficients3 :: "real list"
  interpolation :: InterpolationType



definition GetPolynomial ::
  "TrajectorySource \<Rightarrow> real list \<times> real list \<times> real list
    \<Rightarrow> real list \<times> real list \<times> real list" where
  "GetPolynomial t out = (coefficients1 t, coefficients2 t, coefficients3 t)"


text \<open>
  Modelled from the spec: \<^verbatim>\<open>SetPolynomial(c1, c2, c3, type)\<close>, the overload that is given
  the coefficients, stores the three vectors and the interpolation type (section 6).
\<close>

definition SetPolynomialCoefficients ::
  "real list \<Rightarrow> real list \<Rightarrow> real list \<Rightarrow> InterpolationType
    \<Rightarrow> TrajectorySource \<Rightarrow> TrajectorySource" where
  "SetPolynomialCoefficients c1 c2 c3 ty t =
     t\<lparr>coefficients1 := c1, coefficients2 := c2, coefficients3 := c3, interpolation := ty\<rparr>"


subsection \<open>The observation\<close>

record BundleImage =
  serialNumber :: string
  fileName :: string
  cameraInstrumentPosition :: "addr option"
  cameraInstrumentRotation :: "addr option"

text \<open>
  \<open>images\<close> is the \<^verbatim>\<open>QVector<BundleImageQsp>\<close> that the class inherits from. The field
  \<open>cameraInstrumentPosition\<close> of an image is \<^verbatim>\<open>image->camera()->instrumentPosition()\<close>,
  \<open>None\<close> when the camera or the pointer is null. The solve settings are held behind a
  shared pointer, \<open>None\<close> when null; the object behind it is never written to by this
  class, so it is kept by value.
\<close>

record BundleObservation =
  images :: "BundleImage list"
  m_serialNumbers :: "string list"
  m_imageNames :: "string list"
  m_parameterNamesList :: "string list"
  m_observationNumber :: string
  m_instrumentId :: string
  m_instrumentRotation :: "addr option"
  m_instrumentPosition :: "addr option"
  m_bundleTargetBody :: "addr option"
  m_solveSettings :: "BundleObservationSolveSettings option"
  m_index :: int
  m_weights :: "real list"
  m_corrections :: "real list"
  m_aprioriSigmas :: "real list"
  m_adjustedSigmas :: "real list"

text \<open>The two stores of trajectory sources that the pointers of images and observations address.\<close>

record Stores =
  positions :: "addr \<Rightarrow> TrajectorySource"
  rotations :: "addr \<Rightarrow> TrajectorySource"

text \<open>The state of a default-constructed object: every container empty, every pointer null.\<close>

definition BundleObservation_default :: BundleObservation where
  "BundleObservation_default =
     \<lparr> images = [], m_serialNumbers = [], m_imageNames = [], m_parameterNamesList = [],
       m_observationNumber = [], m_instrumentId = [],
       m_instrumentRotation = None, m_instrumentPosition = None,
       m_bundleTargetBody = None, m_solveSettings = None, m_index = 0,
       m_weights = [], m_corrections = [], m_aprioriSigmas = [], m_adjustedSigmas = [] \<rparr>"

text \<open>\<^verbatim>\<open>BundleObservation(image, observationNumber, instrumentId, bundleTargetBody)\<close>.\<close>

definition BundleObservation_new ::
  "BundleImage option \<Rightarrow> string \<Rightarrow> string \<Rightarrow> addr option \<Rightarrow> BundleObservation" where
  "BundleObservation_new primary observationNumber instrumentId bundleTargetBody =
     (let this = BundleObservation_default
          \<lparr> m_observationNumber := observationNumber, m_instrumentId := instrumentId,
            m_bundleTargetBody := bundleTargetBody \<rparr>
      in case primary of
           None \<Rightarrow> this
         | Some img \<Rightarrow>
             this \<lparr> images := images this @ [img],
                    m_serialNumbers := m_serialNumbers this @ [serialNumber img],
                    m_imageNames := m_imageNames this @ [fileName img],
                    m_instrumentPosition := cameraInstrumentPosition img,
                    m_instrumentRotation := cameraInstrumentRotation img \<rparr>)"

text \<open>\<^verbatim>\<open>QVector::append\<close>, inherited.\<close>

definition append_image :: "BundleImage \<Rightarrow> BundleObservation \<Rightarrow> BundleObservation" where
  "append_image img this = this\<lparr> images := images this @ [img] \<rparr>"

text \<open>
  The copy constructor: the members it does not assign are default-constructed, and so is
  the inherited vector of images.
\<close>

definition BundleObservation_copy :: "BundleObservation \<Rightarrow> BundleObservation" where
  "BundleObservation_copy src =
     BundleObservation_default
       \<lparr> m_serialNumbers := m_serialNumbers src,
         m_observationNumber := m_observationNumber src,
         m_instrumentId := m_instrumentId src,
         m_instrumentPosition := m_instrumentPosition src,
         m_instrumentRotation := m_instrumentRotation src,
         m_solveSettings := m_solveSettings src,
         m_index := m_index src \<rparr>"

text \<open>
  \<^verbatim>\<open>operator=\<close>: the members it does not assign keep the value they had. Assigning an
  object to itself assigns each member its own value, so the test \<^verbatim>\<open>&src != this\<close>
  needs no case of its own.
\<close>

definition BundleObservation_assign :: "BundleObservation \<Rightarrow> BundleObservation \<Rightarrow> BundleObservation" where
  "BundleObservation_assign this src =
     this
       \<lparr> m_serialNumbers := m_serialNumbers src,
         m_observationNumber := m_observationNumber src,
         m_instrumentId := m_instrumentId src,
         m_instrumentPosition := m_instrumentPosition src,
         m_instrumentRotation := m_instrumentRotation src,
         m_solveSettings := m_solveSettings src \<rparr>"

subsection \<open>Parameter counts\<close>

definition numberPositionParameters :: "BundleObservation \<Rightarrow> fault + nat" where
  "numberPositionParameters this =
     (case m_solveSettings this of
        None \<Rightarrow> Inl NullDereference
      | Some s \<Rightarrow> Inr (3 * numberCameraPositionCoefficientsSolved s))"

definition numberPointingParameters :: "BundleObservation \<Rightarrow> fault + nat" where
  "numberPointingParameters this =
     (case m_solveSettings this of
        None \<Rightarrow> Inl NullDereference
      | Some s \<Rightarrow>
          (let angleCoefficients = numberCameraAngleCoefficientsSolved s
           in if solveTwist s then Inr (3 * angleCoefficients)
              else Inr (2 * angleCoefficients)))"

definition numberParameters :: "BundleObservation \<Rightarrow> fault + nat" where
  "numberParameters this =
     andThen (numberPositionParameters this) (\<lambda>np.
     andThen (numberPointingParameters this) (\<lambda>na.
       Inr (np + na)))"

subsection \<open>Weight initialization\<close>

text \<open>
  The weight of one sub-category: \<^verbatim>\<open>if (sigmas.size() >= k+1 && sigmas.at(k) > 0.0)\<close>
  the weight is \<^verbatim>\<open>1.0 / (sigma * sigma * scale)\<close>, else it keeps its initial \<^verbatim>\<open>0.0\<close>.
\<close>

definition sigmaWeight :: "real \<Rightarrow> real list \<Rightarrow> nat \<Rightarrow> real" where
  "sigmaWeight scale sigmas k =
     (if length sigmas \<ge> k + 1 \<and> sigmas ! k > 0
      then 1 / (sigmas ! k * sigmas ! k * scale) else 0)"

text \<open>
  The two assignments of one branch of a loop body:
  \<^verbatim>\<open>m_aprioriSigmas[idx] = sigmas.at(k); m_weights[idx] = w;\<close>
  on the pair of \<^verbatim>\<open>m_aprioriSigmas\<close> and \<^verbatim>\<open>m_weights\<close>.
\<close>

definition assignSlot ::
  "real list \<Rightarrow> nat \<Rightarrow> real \<Rightarrow> nat \<Rightarrow> real list \<times> real list \<Rightarrow> fault + (real list \<times> real list)" where
  "assignSlot sigmas k w idx st =
     (case st of (aps, ws) \<Rightarrow>
        if \<not> k < length sigmas then Inl ListIndexOutOfRange
        else if \<not> idx < length aps then Inl VectorIndexOutOfRange
        else if \<not> idx < length ws then Inl VectorIndexOutOfRange
        else Inr (aps[idx := sigmas ! k], ws[idx := w]))"

text \<open>One pass of either loop of \<^verbatim>\<open>initParameterWeights\<close>: three tests of \<^verbatim>\<open>i % nTerms\<close>.\<close>

definition weightStep ::
  "real list \<Rightarrow> real \<Rightarrow> real \<Rightarrow> real \<Rightarrow> nat \<Rightarrow> nat \<Rightarrow> nat
    \<Rightarrow> real list \<times> real list \<Rightarrow> fault + (real list \<times> real list)" where
  "weightStep sigmas w0 w1 w2 nTerms offset i st =
     (if nTerms = 0 then Inl DivisionByZero
      else
        andThen (if i mod nTerms = 0 then assignSlot sigmas 0 w0 (offset + i) st else Inr st) (\<lambda>st.
        andThen (if i mod nTerms = 1 then assignSlot sigmas 1 w1 (offset + i) st else Inr st) (\<lambda>st.
                (if i mod nTerms = 2 then assignSlot sigmas 2 w2 (offset + i) st else Inr st))))"

definition initParameterWeights :: "BundleObservation \<Rightarrow> fault + (bool \<times> BundleObservation)" where
  "initParameterWeights this =
     (case m_solveSettings this of
        None \<Rightarrow> Inl NullDereference
      | Some s \<Rightarrow>
         (let aprioriPointingSigmas = aprioriPointingSigmas s;
              aprioriPositionSigmas = aprioriPositionSigmas s;
              nCamPosCoeffsSolved = 3 * numberCameraPositionCoefficientsSolved s;
              nCamAngleCoeffsSolved =
                (if solveTwist s then 3 * numberCameraAngleCoefficientsSolved s
                 else 2 * numberCameraAngleCoefficientsSolved s);
              posWeight = sigmaWeight (1 / 10 ^ 6) aprioriPositionSigmas 0;
              velWeight = sigmaWeight (1 / 10 ^ 6) aprioriPositionSigmas 1;
              accWeight = sigmaWeight (1 / 10 ^ 6) aprioriPositionSigmas 2;
              angWeight = sigmaWeight (DEG2RAD * DEG2RAD) aprioriPointingSigmas 0;
              angVelWeight = sigmaWeight (DEG2RAD * DEG2RAD) aprioriPointingSigmas 1;
              angAccWeight = sigmaWeight (DEG2RAD * DEG2RAD) aprioriPointingSigmas 2;
              nSpkTerms = numberCameraPositionCoefficientsSolved s;
              nCkTerms = numberCameraAngleCoefficientsSolved s
          in
            andThen (forLoop nCamPosCoeffsSolved
                       (weightStep aprioriPositionSigmas posWeight velWeight accWeight nSpkTerms 0)
                       (m_aprioriSigmas this, m_weights this)) (\<lambda>st.
            andThen (forLoop nCamAngleCoeffsSolved
                       (weightStep aprioriPointingSigmas angWeight angVelWeight angAccWeight
                          nCkTerms nCamPosCoeffsSolved) st) (\<lambda>st.
              Inr (True, this\<lparr> m_aprioriSigmas := fst st, m_weights := snd st \<rparr>)))))"

definition setSolveSettings ::
  "BundleObservationSolveSettings \<Rightarrow> BundleObservation \<Rightarrow> fault + (bool \<times> BundleObservation)" where
  "setSolveSettings solveSettings this =
     (let nCameraAngleCoefficients = numberCameraAngleCoefficientsSolved solveSettings;
          nCameraPositionCoefficients = numberCameraPositionCoefficientsSolved solveSettings;
          nParameters =
            3 * nCameraPositionCoefficients + 2 * nCameraAngleCoefficients
            + (if nCameraAngleCoefficients \<ge> 1 \<and> solveTwist solveSettings
               then nCameraAngleCoefficients else 0);
          this1 = this
            \<lparr> m_solveSettings := Some solveSettings,
              m_weights := replicate nParameters 0,
              m_corrections := replicate nParameters 0,
              m_aprioriSigmas := replicate nParameters Isis_Null,
              m_adjustedSigmas := replicate nParameters 0 \<rparr>
      in case initParameterWeights this1 of
           Inl e \<Rightarrow> Inl e
         | Inr (ok, this2) \<Rightarrow> if \<not> ok then Inr (False, this2) else Inr (True, this2))"

subsection \<open>Trajectory initialization\<close>









subsection \<open>Applying parameter corrections\<close>

text \<open>
  Modelled from the spec: the names that the static methods
  \<^verbatim>\<open>instrumentPositionSolveOptionToString\<close> and \<^verbatim>\<open>instrumentPointingSolveOptionToString\<close>
  give the options of section 3; they only end the message of an exception.
\<close>

fun instrumentPositionSolveOptionToString :: "InstrumentPositionSolveOption \<Rightarrow> string" where
  "instrumentPositionSolveOptionToString NoPositionFactors = ''None''"
| "instrumentPositionSolveOptionToString PositionOnly = ''PositionOnly''"
| "instrumentPositionSolveOptionToString PositionVelocity = ''PositionVelocity''"
| "instrumentPositionSolveOptionToString PositionVelocityAcceleration =
     ''PositionVelocityAcceleration''"

fun instrumentPointingSolveOptionToString :: "InstrumentPointingSolveOption \<Rightarrow> string" where
  "instrumentPointingSolveOptionToString NoPointingFactors = ''None''"
| "instrumentPointingSolveOptionToString AnglesOnly = ''AnglesOnly''"
| "instrumentPointingSolveOptionToString AnglesVelocity = ''AnglesVelocity''"
| "instrumentPointingSolveOptionToString AnglesVelocityAcceleration =
     ''AnglesVelocityAcceleration''"

text \<open>One pass of an update loop: \<^verbatim>\<open>coef[i] += corrections(index); index++;\<close>\<close>

definition addCorrection ::
  "real list \<Rightarrow> nat \<Rightarrow> real list \<times> nat \<Rightarrow> fault + (real list \<times> nat)" where
  "addCorrection corrections i st =
     (case st of (coef, index) \<Rightarrow>
        if \<not> index < length corrections then Inl VectorIndexOutOfRange
        else if \<not> i < length coef then Inl VectorIndexOutOfRange
        else Inr (coef[i := dadd (coef ! i) (corrections ! index)], index + 1))"

text \<open>One pass of a loop that applies the updates to all images in the observation.\<close>

definition setImagePosition ::
  "BundleObservation \<Rightarrow> real list \<Rightarrow> real list \<Rightarrow> real list \<Rightarrow> InterpolationType \<Rightarrow> nat
    \<Rightarrow> Stores \<Rightarrow> fault + Stores" where
  "setImagePosition this coefX coefY coefZ ty i st =
     (case cameraInstrumentPosition (images this ! i) of
        None \<Rightarrow> Inl NullDereference
      | Some a \<Rightarrow>
          Inr (st\<lparr> positions := (positions st)
                 (a := SetPolynomialCoefficients coefX coefY coefZ ty (positions st a)) \<rparr>))"

definition setImageRotation ::
  "BundleObservation \<Rightarrow> real list \<Rightarrow> real list \<Rightarrow> real list \<Rightarrow> InterpolationType \<Rightarrow> nat
    \<Rightarrow> Stores \<Rightarrow> fault + Stores" where
  "setImageRotation this coefRA coefDEC coefTWI ty i st =
     (case cameraInstrumentRotation (images this ! i) of
        None \<Rightarrow> Inl NullDereference
      | Some a \<Rightarrow>
          Inr (st\<lparr> rotations := (rotations st)
                 (a := SetPolynomialCoefficients coefRA coefDEC coefTWI ty (rotations st a)) \<rparr>))"

text \<open>
  The three vectors that a block declares before it reads the polynomial. Both blocks
  size them with \<^verbatim>\<open>nCameraPositionCoefficients\<close>.
\<close>

definition positionBuffers ::
  "BundleObservationSolveSettings \<Rightarrow> real list \<times> real list \<times> real list" where
  "positionBuffers s =
     (let nCameraPositionCoefficients = numberCameraPositionCoefficientsSolved s
      in (replicate nCameraPositionCoefficients 0, replicate nCameraPositionCoefficients 0,
          replicate nCameraPositionCoefficients 0))"

definition pointingBuffers ::
  "BundleObservationSolveSettings \<Rightarrow> real list \<times> real list \<times> real list" where
  "pointingBuffers s =
     (let nCameraPositionCoefficients = numberCameraPositionCoefficientsSolved s
      in (replicate nCameraPositionCoefficients 0, replicate nCameraPositionCoefficients 0,
          replicate nCameraPositionCoefficients 0))"

text \<open>
  The position block of the \<^verbatim>\<open>try\<close>. The result is the exception thrown, if any, the
  running index into the corrections and the store, as they are when the block is left.
\<close>

definition positionBlock ::
  "real list \<Rightarrow> BundleObservation \<Rightarrow> BundleObservationSolveSettings \<Rightarrow> nat \<Rightarrow> Stores
    \<Rightarrow> fault + (IException option \<times> nat \<times> Stores)" where
  "positionBlock corrections this s index st =
     (let nCameraPositionCoefficients = numberCameraPositionCoefficientsSolved s;
          positionOption = instrumentPositionSolveOption s
      in if positionOption \<noteq> NoPositionFactors then
           (case m_instrumentPosition this of
              None \<Rightarrow>
                Inr (Some (IException Unknown
                       (''Instrument position is NULL, but position solve option is ''
                        @ instrumentPositionSolveOptionToString positionOption)), index, st)
            | Some p \<Rightarrow>
                (case GetPolynomial (positions st p) (positionBuffers s) of
                   (coefX, coefY, coefZ) \<Rightarrow>
                     andThen (forLoop nCameraPositionCoefficients (addCorrection corrections)
                                (coefX, index)) (\<lambda>(coefX, index).
                     andThen (forLoop nCameraPositionCoefficients (addCorrection corrections)
                                (coefY, index)) (\<lambda>(coefY, index).
                     andThen (forLoop nCameraPositionCoefficients (addCorrection corrections)
                                (coefZ, index)) (\<lambda>(coefZ, index).
                     andThen (forLoop (length (images this))
                                (setImagePosition this coefX coefY coefZ
                                   (positionInterpolationType s)) st) (\<lambda>st.
                       Inr (None, index, st)))))))
         else Inr (None, index, st))"

definition pointingBlock ::
  "real list \<Rightarrow> BundleObservation \<Rightarrow> BundleObservationSolveSettings \<Rightarrow> nat \<Rightarrow> Stores
    \<Rightarrow> fault + (IException option \<times> nat \<times> Stores)" where
  "pointingBlock corrections this s index st =
     (let nCameraAngleCoefficients = numberCameraAngleCoefficientsSolved s;
          pointingOption = instrumentPointingSolveOption s
      in if pointingOption \<noteq> NoPointingFactors then
           (case m_instrumentRotation this of
              None \<Rightarrow>
                Inr (Some (IException Unknown
                       (''Instrument rotation is NULL, but pointing solve option is ''
                        @ instrumentPointingSolveOptionToString pointingOption)), index, st)
            | Some p \<Rightarrow>
                (case GetPolynomial (rotations st p) (pointingBuffers s) of
                   (coefRA, coefDEC, coefTWI) \<Rightarrow>
                     andThen (forLoop nCameraAngleCoefficients (addCorrection corrections)
                                (coefRA, index)) (\<lambda>(coefRA, index).
                     andThen (forLoop nCameraAngleCoefficients (addCorrection corrections)
                                (coefDEC, index)) (\<lambda>(coefDEC, index).
                     andThen (if solveTwist s
                              then forLoop nCameraAngleCoefficients (addCorrection corrections)
                                     (coefTWI, index)
                              else Inr (coefTWI, index)) (\<lambda>(coefTWI, index).
                     andThen (forLoop (length (images this))
                                (setImageRotation this coefRA coefDEC coefTWI
                                   (pointingInterpolationType s)) st) (\<lambda>st.
                       Inr (None, index, st)))))))
         else Inr (None, index, st))"

text \<open>\<^verbatim>\<open>m_corrections += corrections\<close> on ublas vectors, which must agree in size.\<close>

definition plusAssign :: "real list \<Rightarrow> real list \<Rightarrow> fault + real list" where
  "plusAssign v w =
     (if length v \<noteq> length w then Inl VectorSizeMismatch else Inr (map2 dadd v w))"

text \<open>
  The body of the \<^verbatim>\<open>try\<close>: the exception it throws, if any, with the observation and the
  store as the body leaves them.
\<close>

definition applyParameterCorrections_try ::
  "real list \<Rightarrow> BundleObservation \<Rightarrow> Stores
    \<Rightarrow> fault + (IException option \<times> BundleObservation \<times> Stores)" where
  "applyParameterCorrections_try corrections this st =
     (case m_solveSettings this of
        None \<Rightarrow> Inl NullDereference
      | Some s \<Rightarrow>
          andThen (positionBlock corrections this s 0 st) (\<lambda>(thrown, index, st).
            case thrown of
              Some e \<Rightarrow> Inr (Some e, this, st)
            | None \<Rightarrow>
                andThen (pointingBlock corrections this s index st) (\<lambda>(thrown, index, st).
                  case thrown of
                    Some e \<Rightarrow> Inr (Some e, this, st)
                  | None \<Rightarrow>
                      andThen (plusAssign (m_corrections this) corrections) (\<lambda>sum.
                        Inr (None, this\<lparr> m_corrections := sum \<rparr>, st)))))"

text \<open>
  What a call hands to its caller: a returned value, or an exception that leaves the
  function.
\<close>

datatype 'a Outcome = Returned 'a | Threw IException

text \<open>
  The whole function. The handler builds the wrapping exception as a temporary and does
  not throw it; control falls through to \<^verbatim>\<open>return true\<close>.
\<close>

definition applyParameterCorrections ::
  "real list \<Rightarrow> BundleObservation \<Rightarrow> Stores
    \<Rightarrow> fault + (bool Outcome \<times> BundleObservation \<times> Stores)" where
  "applyParameterCorrections corrections this st =
     andThen (applyParameterCorrections_try corrections this st) (\<lambda>(thrown, this, st).
       case thrown of
         None \<Rightarrow> Inr (Returned True, this, st)
       | Some e \<Rightarrow>
           (let unused = IExceptionCaused e Unknown
                  ''Unable to apply parameter corrections to BundleObservation.''
            in Inr (Returned True, this, st)))"

subsection \<open>Reporting\<close>

text \<open>\<^verbatim>\<open>QString::arg(int)\<close>: a non-negative integer in decimal digits.\<close>

definition digitChar :: "nat \<Rightarrow> char" where
  "digitChar d = char_of (48 + d)"

function toDecimal :: "nat \<Rightarrow> string" where
  "toDecimal n =
     (if n < 10 then [digitChar n] else toDecimal (n div 10) @ [digitChar (n mod 10)])"
  by pat_completeness auto
termination
  by (relation "measure id") auto

declare toDecimal.simps [simp del]

text \<open>\<^verbatim>\<open>QString("%1(t%2)").arg(label).arg(order)\<close>.\<close>

definition parameterName :: "string \<Rightarrow> string \<Rightarrow> string" where
  "parameterName label order = label @ ''(t'' @ order @ '')''"

text \<open>
  One pass of a loop that fills the values and the names:
  \<^verbatim>\<open>finalParameterValues.push_back(conv(coef[i]))\<close> and the name of coefficient \<open>i\<close>.
\<close>

definition pushParameter ::
  "string \<Rightarrow> (real \<Rightarrow> real) \<Rightarrow> real list \<Rightarrow> nat
    \<Rightarrow> real list \<times> string list \<Rightarrow> fault + (real list \<times> string list)" where
  "pushParameter label conv coef i st =
     (case st of (finalParameterValues, parameterNamesList) \<Rightarrow>
        if \<not> i < length coef then Inl VectorIndexOutOfRange
        else Inr (finalParameterValues @ [conv (coef ! i)],
                  parameterNamesList @
                    [if i = 0 then parameterName label ''0''
                     else parameterName ''     '' (toDecimal i)]))"

text \<open>
  A row of the table. The layout of a number in its column is left out: a field is the
  number that is printed, or a text.
\<close>

datatype Field = Number real | Text string

record Row =
  rowName :: string
  rowInitial :: real
  rowCorrection :: real
  rowFinal :: real
  rowSigma :: Field
  rowAdjustedSigma :: Field

definition positionRow ::
  "bool \<Rightarrow> BundleObservation \<Rightarrow> string list \<Rightarrow> real list \<Rightarrow> nat \<Rightarrow> Row list \<Rightarrow> fault + Row list" where
  "positionRow errorPropagation this parameterNamesList finalParameterValues i finalqStr =
     (if \<not> i < length (m_aprioriSigmas this) then Inl VectorIndexOutOfRange
      else if \<not> i < length parameterNamesList then Inl ListIndexOutOfRange
      else if \<not> i < length finalParameterValues then Inl VectorIndexOutOfRange
      else if \<not> i < length (m_corrections this) then Inl VectorIndexOutOfRange
      else if errorPropagation \<and> \<not> i < length (m_adjustedSigmas this)
      then Inl VectorIndexOutOfRange
      else
        (let sigma = (if IsSpecial (m_aprioriSigmas this ! i) then Text ''N/A''
                      else Number (m_aprioriSigmas this ! i))
         in Inr (finalqStr @
              [\<lparr> rowName = parameterNamesList ! i,
                 rowInitial = finalParameterValues ! i - m_corrections this ! i,
                 rowCorrection = m_corrections this ! i,
                 rowFinal = finalParameterValues ! i,
                 rowSigma = sigma,
                 rowAdjustedSigma =
                   (if errorPropagation then Number (m_adjustedSigmas this ! i)
                    else Text ''N/A'') \<rparr>])))"

definition pointingRow ::
  "bool \<Rightarrow> BundleObservation \<Rightarrow> string list \<Rightarrow> real list \<Rightarrow> nat \<Rightarrow> Row list \<Rightarrow> fault + Row list" where
  "pointingRow errorPropagation this parameterNamesList finalParameterValues i finalqStr =
     (if \<not> i < length (m_aprioriSigmas this) then Inl VectorIndexOutOfRange
      else if \<not> i < length parameterNamesList then Inl ListIndexOutOfRange
      else if \<not> i < length finalParameterValues then Inl VectorIndexOutOfRange
      else if \<not> i < length (m_corrections this) then Inl VectorIndexOutOfRange
      else if errorPropagation \<and> \<not> i < length (m_adjustedSigmas this)
      then Inl VectorIndexOutOfRange
      else
        (let sigma = (if IsSpecial (m_aprioriSigmas this ! i) then Text ''N/A''
                      else Number (m_aprioriSigmas this ! i))
         in Inr (finalqStr @
              [\<lparr> rowName = parameterNamesList ! i,
                 rowInitial = finalParameterValues ! i - m_corrections this ! i * RAD2DEG,
                 rowCorrection = m_corrections this ! i * RAD2DEG,
                 rowFinal = finalParameterValues ! i,
                 rowSigma = sigma,
                 rowAdjustedSigma =
                   (if errorPropagation then Number (m_adjustedSigmas this ! i * RAD2DEG)
                    else Text ''N/A'') \<rparr>])))"

text \<open>
  The coefficient vectors that the report reads: resized to the number of solved
  coefficients, then replaced by the stored polynomial if there is a coefficient to
  report and the observation's pointer is not null.
\<close>

definition reportPositionCoefficients ::
  "BundleObservation \<Rightarrow> BundleObservationSolveSettings \<Rightarrow> Stores
    \<Rightarrow> real list \<times> real list \<times> real list" where
  "reportPositionCoefficients this s st =
     (let nPositionCoefficients = numberCameraPositionCoefficientsSolved s;
          resized = (replicate nPositionCoefficients 0, replicate nPositionCoefficients 0,
                     replicate nPositionCoefficients 0)
      in case m_instrumentPosition this of
           Some p \<Rightarrow>
             if nPositionCoefficients > 0 then GetPolynomial (positions st p) resized
             else resized
         | None \<Rightarrow> resized)"

definition reportPointingCoefficients ::
  "BundleObservation \<Rightarrow> BundleObservationSolveSettings \<Rightarrow> Stores
    \<Rightarrow> real list \<times> real list \<times> real list" where
  "reportPointingCoefficients this s st =
     (let nPointingCoefficients = numberCameraAngleCoefficientsSolved s;
          resized = (replicate nPointingCoefficients 0, replicate nPointingCoefficients 0,
                     replicate nPointingCoefficients 0)
      in case m_instrumentRotation this of
           Some p \<Rightarrow>
             if nPointingCoefficients > 0 then GetPolynomial (rotations st p) resized
             else resized
         | None \<Rightarrow> resized)"

text \<open>
  The first half of \<^verbatim>\<open>formatBundleOutputString\<close>: the vectors of parameter values and
  names, in sequence.
\<close>

definition parameterValuesAndNames ::
  "BundleObservation \<Rightarrow> BundleObservationSolveSettings \<Rightarrow> Stores
    \<Rightarrow> fault + (real list \<times> string list)" where
  "parameterValuesAndNames this s st =
     (let nPositionCoefficients = numberCameraPositionCoefficientsSolved s;
          nPointingCoefficients = numberCameraAngleCoefficientsSolved s
      in case reportPositionCoefficients this s st of (coefX, coefY, coefZ) \<Rightarrow>
         case reportPointingCoefficients this s st of (coefRA, coefDEC, coefTWI) \<Rightarrow>
           andThen
             (if nPositionCoefficients > 0 then
                andThen (forLoop nPositionCoefficients
                           (pushParameter ''  X  '' (\<lambda>v. v) coefX) ([], [])) (\<lambda>vn.
                andThen (forLoop nPositionCoefficients
                           (pushParameter ''  Y  '' (\<lambda>v. v) coefY) vn) (\<lambda>vn.
                         forLoop nPositionCoefficients
                           (pushParameter ''  Z  '' (\<lambda>v. v) coefZ) vn))
              else Inr ([], [])) (\<lambda>vn.
             if nPointingCoefficients > 0 then
               andThen (forLoop nPointingCoefficients
                          (pushParameter '' RA  '' (\<lambda>v. v * RAD2DEG) coefRA) vn) (\<lambda>vn.
               andThen (forLoop nPointingCoefficients
                          (pushParameter ''DEC  '' (\<lambda>v. v * RAD2DEG) coefDEC) vn) (\<lambda>vn.
                        forLoop nPointingCoefficients
                          (pushParameter ''TWI  '' (\<lambda>v. v * RAD2DEG) coefTWI) vn))
             else Inr vn))"

text \<open>
  The function returns the rows and leaves the names in \<^verbatim>\<open>m_parameterNamesList\<close>, which
  \<^verbatim>\<open>parameterList()\<close> hands out.
\<close>

definition formatBundleOutputString ::
  "bool \<Rightarrow> BundleObservation \<Rightarrow> Stores \<Rightarrow> fault + (Row list \<times> BundleObservation)" where
  "formatBundleOutputString errorPropagation this st =
     (case m_solveSettings this of
        None \<Rightarrow> Inl NullDereference
      | Some s \<Rightarrow>
          andThen (numberPositionParameters this) (\<lambda>nPositionParameters.
          andThen (numberPointingParameters this) (\<lambda>nPointingParameters.
            (let nParameters = nPositionParameters + nPointingParameters
             in andThen (parameterValuesAndNames this s st)
                  (\<lambda>(finalParameterValues, parameterNamesList).
                (let this1 = this\<lparr> m_parameterNamesList := parameterNamesList \<rparr>
                 in andThen (forEach [0..<nPositionParameters]
                               (positionRow errorPropagation this1 parameterNamesList
                                  finalParameterValues) []) (\<lambda>finalqStr.
                    andThen (forEach [nPositionParameters..<nParameters]
                               (pointingRow errorPropagation this1 parameterNamesList
                                  finalParameterValues) finalqStr) (\<lambda>finalqStr.
                      Inr (finalqStr, this1)))))))))"

definition parameterList :: "BundleObservation \<Rightarrow> string list" where
  "parameterList this = m_parameterNamesList this"

subsection \<open>Vocabulary of the properties\<close>

text \<open>The weight of the sub-category with the given residue, out of the three of one group.\<close>

definition slotWeight :: "real \<Rightarrow> real \<Rightarrow> real \<Rightarrow> nat \<Rightarrow> real" where
  "slotWeight w0 w1 w2 r = (if r = 0 then w0 else if r = 1 then w1 else w2)"

text \<open>
  A list of a-priori sigmas has an entry for every sub-category that \<open>n\<close> solved
  coefficients use (an entry may hold any number, the sentinel included).
\<close>

definition sigmasPresent :: "nat \<Rightarrow> real list \<Rightarrow> bool" where
  "sigmasPresent n sigmas = (min n 3 \<le> length sigmas)"

text \<open>The number of pointing blocks: RA, DEC and, when it is solved, Twist.\<close>

definition pointingBlocks :: "BundleObservationSolveSettings \<Rightarrow> nat" where
  "pointingBlocks s = (if solveTwist s then 3 else 2)"

text \<open>The vector \<open>coef\<close> after an update loop of \<open>n\<close> passes that starts at \<open>index\<close>.\<close>

definition addSlice :: "real list \<Rightarrow> nat \<Rightarrow> nat \<Rightarrow> real list \<Rightarrow> real list" where
  "addSlice corrections index n coef =
     map2 dadd (take n coef) (take n (drop index corrections)) @ drop n coef"

text \<open>The address is the position source of a member image.\<close>

definition isMemberPosition :: "BundleObservation \<Rightarrow> addr \<Rightarrow> bool" where
  "isMemberPosition this a = (Some a \<in> set (map cameraInstrumentPosition (images this)))"

text \<open>The address is the rotation source of a member image.\<close>

definition isMemberRotation :: "BundleObservation \<Rightarrow> addr \<Rightarrow> bool" where
  "isMemberRotation this a = (Some a \<in> set (map cameraInstrumentRotation (images this)))"

text \<open>Every member image has a camera with a position and a rotation source.\<close>

definition haveSources :: "BundleObservation \<Rightarrow> bool" where
  "haveSources this =
     list_all (\<lambda>img. cameraInstrumentPosition img \<noteq> None \<and> cameraInstrumentRotation img \<noteq> None)
       (images this)"

text \<open>A source stores at least \<open>n\<close> coefficients in each of its three vectors.\<close>

definition holdsCoefficients :: "nat \<Rightarrow> TrajectorySource \<Rightarrow> bool" where
  "holdsCoefficients n t =
     (n \<le> length (coefficients1 t) \<and> n \<le> length (coefficients2 t)
      \<and> n \<le> length (coefficients3 t))"

text \<open>The store after the three vectors have been set in every member image's position source.\<close>

definition broadcastPosition ::
  "BundleObservation \<Rightarrow> real list \<Rightarrow> real list \<Rightarrow> real list \<Rightarrow> InterpolationType
    \<Rightarrow> Stores \<Rightarrow> Stores" where
  "broadcastPosition this cx cy cz ty st =
     st\<lparr> positions := (\<lambda>a.
            if isMemberPosition this a
            then SetPolynomialCoefficients cx cy cz ty (positions st a)
            else positions st a) \<rparr>"

text \<open>The same for the rotation sources.\<close>

definition broadcastRotation ::
  "BundleObservation \<Rightarrow> real list \<Rightarrow> real list \<Rightarrow> real list \<Rightarrow> InterpolationType
    \<Rightarrow> Stores \<Rightarrow> Stores" where
  "broadcastRotation this cx cy cz ty st =
     st\<lparr> rotations := (\<lambda>a.
            if isMemberRotation this a
            then SetPolynomialCoefficients cx cy cz ty (rotations st a)
            else rotations st a) \<rparr>"

text \<open>An observation as the four-argument constructor, \<^verbatim>\<open>append\<close> and \<^verbatim>\<open>setSolveSettings\<close> leave
  it once the trajectories are initialized: it has members, all with live sources, its
  own two pointers are those of the first member, the accumulator has one entry per
  parameter, and the sources behind its pointers store a coefficient for every solved
  one.\<close>

definition wellFormed :: "BundleObservation \<Rightarrow> Stores \<Rightarrow> bool" where
  "wellFormed this st =
     (case m_solveSettings this of
        None \<Rightarrow> False
      | Some s \<Rightarrow>
          images this \<noteq> [] \<and> haveSources this
        \<and> m_instrumentPosition this = cameraInstrumentPosition (hd (images this))
        \<and> m_instrumentRotation this = cameraInstrumentRotation (hd (images this))
        \<and> length (m_corrections this) =
            3 * numberCameraPositionCoefficientsSolved s
            + pointingBlocks s * numberCameraAngleCoefficientsSolved s
        \<and> (instrumentPositionSolveOption s = NoPositionFactors
            \<or> (case m_instrumentPosition this of
                  None \<Rightarrow> False
                | Some q \<Rightarrow>
                    holdsCoefficients (numberCameraPositionCoefficientsSolved s) (positions st q)))
        \<and> (instrumentPointingSolveOption s = NoPointingFactors
            \<or> (case m_instrumentRotation this of
                  None \<Rightarrow> False
                | Some q \<Rightarrow>
                    holdsCoefficients (numberCameraAngleCoefficientsSolved s) (rotations st q))))"

text \<open>The running index into the corrections when the position block is left.\<close>

definition positionIndex :: "BundleObservationSolveSettings \<Rightarrow> nat" where
  "positionIndex s =
     (if instrumentPositionSolveOption s = NoPositionFactors then 0
      else 3 * numberCameraPositionCoefficientsSolved s)"

text \<open>The store after the position block of a call that does not fail.\<close>

definition correctedPositions ::
  "real list \<Rightarrow> BundleObservation \<Rightarrow> BundleObservationSolveSettings \<Rightarrow> Stores \<Rightarrow> Stores" where
  "correctedPositions c this s st =
     (case m_instrumentPosition this of
        None \<Rightarrow> st
      | Some q \<Rightarrow>
          if instrumentPositionSolveOption s = NoPositionFactors then st
          else
            (let p = numberCameraPositionCoefficientsSolved s
             in broadcastPosition this
                  (addSlice c 0 p (coefficients1 (positions st q)))
                  (addSlice c p p (coefficients2 (positions st q)))
                  (addSlice c (2 * p) p (coefficients3 (positions st q)))
                  (positionInterpolationType s) st))"

text \<open>The store after the pointing block of a call that does not fail.\<close>

definition correctedRotations ::
  "real list \<Rightarrow> BundleObservation \<Rightarrow> BundleObservationSolveSettings \<Rightarrow> Stores \<Rightarrow> Stores" where
  "correctedRotations c this s st =
     (case m_instrumentRotation this of
        None \<Rightarrow> st
      | Some q \<Rightarrow>
          if instrumentPointingSolveOption s = NoPointingFactors then st
          else
            (let a = numberCameraAngleCoefficientsSolved s; index = positionIndex s
             in broadcastRotation this
                  (addSlice c index a (coefficients1 (rotations st q)))
                  (addSlice c (index + a) a (coefficients2 (rotations st q)))
                  (if solveTwist s
                   then addSlice c (index + 2 * a) a (coefficients3 (rotations st q))
                   else coefficients3 (rotations st q))
                  (pointingInterpolationType s) st))"

text \<open>
  Adding \<open>a\<close> and then \<open>b\<close> to \<open>x\<close> gives what adding the sum of \<open>a\<close> and \<open>b\<close> gives, all
  sums being finite.
\<close>

definition sumsAssociate :: "real \<Rightarrow> real \<Rightarrow> real \<Rightarrow> bool" where
  "sumsAssociate x a b =
     (finiteDouble (dadd x a) \<and> finiteDouble (dadd (dadd x a) b)
      \<and> finiteDouble (dadd a b) \<and> finiteDouble (dadd x (dadd a b))
      \<and> dadd (dadd x a) b = dadd x (dadd a b))"

text \<open>
  The same for the first \<open>n\<close> entries of \<open>coef\<close>, with the entries of two correction vectors
  from \<open>index\<close> on.
\<close>

definition sliceAssociates :: "real list \<Rightarrow> real list \<Rightarrow> nat \<Rightarrow> nat \<Rightarrow> real list \<Rightarrow> bool" where
  "sliceAssociates c1 c2 index n coef =
     list_all (\<lambda>(x, a, b). sumsAssociate x a b)
       (zip (take n coef) (zip (take n (drop index c1)) (take n (drop index c2))))"

text \<open>
  The same for every addition that two calls make: into the accumulator, and into the
  solved coefficients of the sources behind the observation's own pointers.
\<close>

definition additionsAssociate ::
  "real list \<Rightarrow> real list \<Rightarrow> BundleObservation \<Rightarrow> BundleObservationSolveSettings \<Rightarrow> Stores
    \<Rightarrow> bool" where
  "additionsAssociate c1 c2 this s st =
     (sliceAssociates c1 c2 0 (length (m_corrections this)) (m_corrections this)
      \<and> (case m_instrumentPosition this of
           None \<Rightarrow> True
         | Some q \<Rightarrow>
             instrumentPositionSolveOption s = NoPositionFactors
           \<or> (let p = numberCameraPositionCoefficientsSolved s
              in sliceAssociates c1 c2 0 p (coefficients1 (positions st q))
               \<and> sliceAssociates c1 c2 p p (coefficients2 (positions st q))
               \<and> sliceAssociates c1 c2 (2 * p) p (coefficients3 (positions st q))))
      \<and> (case m_instrumentRotation this of
           None \<Rightarrow> True
         | Some r \<Rightarrow>
             instrumentPointingSolveOption s = NoPointingFactors
           \<or> (let a = numberCameraAngleCoefficientsSolved s; index = positionIndex s
              in sliceAssociates c1 c2 index a (coefficients1 (rotations st r))
               \<and> sliceAssociates c1 c2 (index + a) a (coefficients2 (rotations st r))
               \<and> (\<not> solveTwist s
                  \<or> sliceAssociates c1 c2 (index + 2 * a) a (coefficients3 (rotations st r))))))"


subsection \<open>Concrete settings\<close>

definition settingsOf ::
  "InstrumentPositionSolveOption \<Rightarrow> nat \<Rightarrow> real list
    \<Rightarrow> InstrumentPointingSolveOption \<Rightarrow> nat \<Rightarrow> bool \<Rightarrow> real list
    \<Rightarrow> BundleObservationSolveSettings" where
  "settingsOf po p ps ao a tw as =
     \<lparr> instrumentPositionSolveOption = po, instrumentPointingSolveOption = ao,
       numberCameraPositionCoefficientsSolved = p, numberCameraAngleCoefficientsSolved = a,
       solveTwist = tw, spkDegree = 2, spkSolveDegree = 2, ckDegree = 2, ckSolveDegree = 2,
       positionInterpolationType = 0, pointingInterpolationType = 0,
       aprioriPositionSigmas = ps, aprioriPointingSigmas = as \<rparr>"


text \<open>Position solved, with an empty list of position sigmas.\<close>

definition emptySigmaSettings :: BundleObservationSolveSettings where
  "emptySigmaSettings = settingsOf PositionOnly 1 [] NoPointingFactors 0 False []"


text \<open>Position solved, with a position sigma that is not positive.\<close>

definition zeroSigmaSettings :: BundleObservationSolveSettings where
  "zeroSigmaSettings = settingsOf PositionOnly 1 [0] NoPointingFactors 0 False []"

text \<open>Three position and two pointing coefficients solved, twist included.\<close>

definition fullSettings :: BundleObservationSolveSettings where
  "fullSettings =
     settingsOf PositionVelocityAcceleration 3 [1, 2, 0] AnglesVelocity 2 True [1, 2]"

subsection \<open>Concrete observations and stores\<close>

definition sourceOf :: "real list \<Rightarrow> real list \<Rightarrow> real list \<Rightarrow> TrajectorySource" where
  "sourceOf c1 c2 c3 =
     \<lparr> polynomialDegree = 0, baseTime = 0, timeScale = 1,
       coefficients1 = c1, coefficients2 = c2, coefficients3 = c3, interpolation = 0 \<rparr>"

definition storesOf :: "TrajectorySource \<Rightarrow> Stores" where
  "storesOf t = \<lparr> positions = (\<lambda>a. t), rotations = (\<lambda>a. t) \<rparr>"

definition imageAt :: "addr option \<Rightarrow> addr option \<Rightarrow> BundleImage" where
  "imageAt p r =
     \<lparr> serialNumber = ''sn'', fileName = ''image.cub'',
       cameraInstrumentPosition = p, cameraInstrumentRotation = r \<rparr>"

text \<open>The observation constructed from the first image of a list, the others appended, with
  the settings set.\<close>

definition observationOf :: "BundleImage list \<Rightarrow> BundleObservationSolveSettings \<Rightarrow> BundleObservation" where
  "observationOf imgs s =
     (case imgs of
        [] \<Rightarrow> BundleObservation_default
      | img # rest \<Rightarrow>
          (case setSolveSettings s
                  (fold append_image rest (BundleObservation_new (Some img) ''obs'' ''inst'' None)) of
             Inr (ok, this) \<Rightarrow> this
           | Inl e \<Rightarrow> BundleObservation_default))"

definition positionOnlySettings :: BundleObservationSolveSettings where
  "positionOnlySettings = settingsOf PositionOnly 1 [1] NoPointingFactors 0 False []"


text \<open>One position coefficient and two pointing coefficients solved, twist included.\<close>

definition mixedSettings :: BundleObservationSolveSettings where
  "mixedSettings = settingsOf PositionOnly 1 [1] AnglesVelocity 2 True [1, 1]"

text \<open>Pointing solved without twist, one coefficient, position not solved.\<close>

definition anglesNoTwistSettings :: BundleObservationSolveSettings where
  "anglesNoTwistSettings = settingsOf NoPositionFactors 0 [] AnglesOnly 1 False [1]"


section \<open>Properties\<close>

subsection \<open>Sequencing and loops\<close>

lemma andThen_Inr [simp]: "andThen (Inr x) f = f x"
  by (simp add: andThen_def)

lemma andThen_Inl [simp]: "andThen (Inl e) f = Inl e"
  by (simp add: andThen_def)

lemma forEach_append:
  "forEach (xs @ ys) body s = andThen (forEach xs body s) (forEach ys body)"
  by (induction xs arbitrary: s) (auto split: sum.splits)

lemma forLoop_0 [simp]: "forLoop 0 body s = Inr s"
  by (simp add: forLoop_def)

lemma forLoop_Suc:
  "forLoop (Suc n) body s = andThen (forLoop n body s) (body n)"
  by (cases "forEach [0..<n] body s") (auto simp: forLoop_def forEach_append split: sum.splits)

lemma forLoop_numeral:
  "forLoop (numeral k) body s =
     andThen (forLoop (pred_numeral k) body s) (body (pred_numeral k))"
  by (simp add: numeral_eq_Suc forLoop_Suc)

lemma forLoop_1: "forLoop (Suc 0) body s = body 0 s"
  by (simp add: forLoop_Suc)

lemma replicate_numeral:
  "replicate (numeral k) x = x # replicate (pred_numeral k) x"
  by (simp add: numeral_eq_Suc)

lemma list_update_numeral:
  "(x # xs)[numeral k := y] = x # xs[pred_numeral k := y]"
  by (simp add: numeral_eq_Suc)

lemmas unroll = forLoop_numeral forLoop_1 replicate_numeral list_update_numeral Let_def

subsection \<open>Addition of doubles\<close>

lemma bitLength_nonpos [simp]: "n \<le> 0 \<Longrightarrow> bitLength n = 0"
  by (subst bitLength.simps) simp

lemma bitLength_1 [simp]: "bitLength 1 = 1"
  by (subst bitLength.simps) simp

lemma bitLength_numeral [simp]:
  "bitLength (numeral k) = Suc (bitLength (numeral k div 2))"
  by (subst bitLength.simps) simp

lemma bitLength_le: "n < 2 ^ k \<Longrightarrow> bitLength n \<le> k"
proof (induction k arbitrary: n)
  case 0
  then show ?case by simp
next
  case (Suc k)
  show ?case
  proof (cases "n \<le> 0")
    case True
    then show ?thesis by simp
  next
    case False
    from Suc.prems have "n div 2 < 2 ^ k" by simp
    from Suc.IH[OF this] False show ?thesis
      by (subst bitLength.simps) simp
  qed
qed

lemma roundEven_of_int [simp]: "roundEven (of_int n) = n"
  by (simp add: roundEven_def)

text \<open>An integer below \<open>2\<^sup>5\<^sup>3\<close> in magnitude is a double.\<close>

lemma roundDouble_int:
  assumes "\<bar>k\<bar> < 2 ^ 53"
  shows "roundDouble (of_int k) = of_int k"
proof (cases "k = 0")
  case True
  then show ?thesis by (simp add: roundDouble_def)
next
  case False
  then have one: "1 \<le> \<bar>real_of_int k\<bar>"
    by (metis of_int_abs of_int_1_le_iff zero_less_abs_iff int_one_le_iff_zero_less)
  have fl: "\<lfloor>\<bar>real_of_int k\<bar>\<rfloor> = \<bar>k\<bar>"
    by (metis floor_of_int of_int_abs)
  from bitLength_le[OF assms] have L: "floorLog2 \<bar>real_of_int k\<bar> \<le> 52"
    using one by (simp add: floorLog2_def fl)
  define e where "e = max (floorLog2 \<bar>real_of_int k\<bar> - 52) (- 1074)"
  have e: "e \<le> 0" using L by (simp add: e_def)
  have q: "real_of_int k / pow2 e = of_int (k * 2 ^ nat (- e))"
    using e by (cases "e = 0") (simp_all add: pow2_def)
  have "of_int (roundEven (real_of_int k / pow2 e)) * pow2 e = real_of_int k"
    unfolding q roundEven_of_int using e by (cases "e = 0") (simp_all add: pow2_def)
  then show ?thesis
    using False by (simp add: roundDouble_def e_def[symmetric] Let_def)
qed

text \<open>The sum of two integers is exact when it stays below \<open>2\<^sup>5\<^sup>3\<close> in magnitude.\<close>

lemma dadd_ints:
  assumes "x \<in> \<int>" "y \<in> \<int>" "\<bar>x + y\<bar> < 2 ^ 53"
  shows "dadd x y = x + y"
proof -
  from assms(1,2) obtain i j where x: "x = of_int i" and y: "y = of_int j"
    by (auto elim!: Ints_cases)
  have "\<bar>i + j\<bar> < 2 ^ 53"
  proof -
    have "real_of_int \<bar>i + j\<bar> < 2 ^ 53" using assms(3) by (simp add: x y)
    then show ?thesis by (metis of_int_less_iff of_int_numeral of_int_power)
  qed
  from roundDouble_int[OF this] show ?thesis
    by (simp add: dadd_def x y)
qed

lemmas double_eval = dadd_def roundDouble_def floorLog2_def pow2_def roundEven_def

subsection \<open>Weight initialization\<close>

lemma weightStep_ok:
  assumes "0 < nTerms" "offset + i < length aps" "length ws = length aps"
    "i mod nTerms < 3 \<longrightarrow> i mod nTerms < length sigmas"
  shows "weightStep sigmas w0 w1 w2 nTerms offset i (aps, ws) =
     Inr (if i mod nTerms < 3
          then (aps[offset + i := sigmas ! (i mod nTerms)],
                ws[offset + i := slotWeight w0 w1 w2 (i mod nTerms)])
          else (aps, ws))"
proof -
  consider "i mod nTerms = 0" | "i mod nTerms = 1" | "i mod nTerms = 2" | "3 \<le> i mod nTerms"
    by linarith
  then show ?thesis
    using assms by cases (simp_all add: weightStep_def assignSlot_def slotWeight_def)
qed

text \<open>What one of the two loops leaves in the two vectors, slot by slot.\<close>

lemma weightLoop_result:
  assumes "0 < nTerms \<or> n = 0" "offset + n \<le> length aps" "length ws = length aps"
    "\<forall>i<n. i mod nTerms < 3 \<longrightarrow> i mod nTerms < length sigmas"
  shows "\<exists>aps' ws'.
      forLoop n (weightStep sigmas w0 w1 w2 nTerms offset) (aps, ws) = Inr (aps', ws')
    \<and> length aps' = length aps \<and> length ws' = length ws
    \<and> (\<forall>j<length aps. aps' ! j =
         (if offset \<le> j \<and> j < offset + n \<and> (j - offset) mod nTerms < 3
          then sigmas ! ((j - offset) mod nTerms) else aps ! j))
    \<and> (\<forall>j<length ws. ws' ! j =
         (if offset \<le> j \<and> j < offset + n \<and> (j - offset) mod nTerms < 3
          then slotWeight w0 w1 w2 ((j - offset) mod nTerms) else ws ! j))"
  using assms
proof (induction n)
  case 0
  then show ?case by simp
next
  case (Suc n)
  then have nz: "0 < nTerms" by simp
  from Suc obtain aps' ws' where
    run: "forLoop n (weightStep sigmas w0 w1 w2 nTerms offset) (aps, ws) = Inr (aps', ws')"
    and la: "length aps' = length aps" and lw: "length ws' = length ws"
    and pa: "\<forall>j<length aps. aps' ! j =
         (if offset \<le> j \<and> j < offset + n \<and> (j - offset) mod nTerms < 3
          then sigmas ! ((j - offset) mod nTerms) else aps ! j)"
    and pw: "\<forall>j<length ws. ws' ! j =
         (if offset \<le> j \<and> j < offset + n \<and> (j - offset) mod nTerms < 3
          then slotWeight w0 w1 w2 ((j - offset) mod nTerms) else ws ! j)"
    by force
  have step: "weightStep sigmas w0 w1 w2 nTerms offset n (aps', ws') =
     Inr (if n mod nTerms < 3
          then (aps'[offset + n := sigmas ! (n mod nTerms)],
                ws'[offset + n := slotWeight w0 w1 w2 (n mod nTerms)])
          else (aps', ws'))"
    using Suc.prems nz la lw by (intro weightStep_ok) auto
  show ?case
  proof (cases "n mod nTerms < 3")
    case True
    show ?thesis
      apply (rule exI[of _ "aps'[offset + n := sigmas ! (n mod nTerms)]"])
      apply (rule exI[of _ "ws'[offset + n := slotWeight w0 w1 w2 (n mod nTerms)]"])
      using True run step la lw pa pw Suc.prems(2,3)
      by (auto simp: forLoop_Suc nth_list_update less_Suc_eq)
  next
    case False
    show ?thesis
      apply (rule exI[of _ aps'])
      apply (rule exI[of _ ws'])
      using False run step la lw pa pw Suc.prems(2,3)
      by (auto simp: forLoop_Suc less_Suc_eq)
  qed
qed

lemma mod_present:
  assumes "sigmasPresent n sigmas" "i mod n < 3" "0 < n"
  shows "i mod n < length sigmas"
proof -
  have "i mod n < n" using assms(3) by simp
  then show ?thesis using assms(1,2) by (simp add: sigmasPresent_def min_def split: if_splits)
qed

lemma initParameterWeights_slots:
  fixes s :: BundleObservationSolveSettings
  defines "p \<equiv> numberCameraPositionCoefficientsSolved s"
    and "a \<equiv> numberCameraAngleCoefficientsSolved s"
    and "ps \<equiv> aprioriPositionSigmas s"
    and "as \<equiv> aprioriPointingSigmas s"
  defines "N \<equiv> 3 * p + pointingBlocks s * a"
  assumes set: "m_solveSettings this = Some s"
    and len: "length (m_aprioriSigmas this) = N" "length (m_weights this) = N"
    and pres: "sigmasPresent p ps" "sigmasPresent a as"
  shows "\<exists>aps ws.
      initParameterWeights this = Inr (True, this\<lparr> m_aprioriSigmas := aps, m_weights := ws \<rparr>)
    \<and> length aps = N \<and> length ws = N
    \<and> (\<forall>i<3 * p.
          aps ! i = (if i mod p < 3 then ps ! (i mod p) else m_aprioriSigmas this ! i)
        \<and> ws ! i = (if i mod p < 3
                    then slotWeight (sigmaWeight (1 / 10 ^ 6) ps 0) (sigmaWeight (1 / 10 ^ 6) ps 1)
                           (sigmaWeight (1 / 10 ^ 6) ps 2) (i mod p)
                    else m_weights this ! i))
    \<and> (\<forall>i<pointingBlocks s * a.
          aps ! (3 * p + i) =
            (if i mod a < 3 then as ! (i mod a) else m_aprioriSigmas this ! (3 * p + i))
        \<and> ws ! (3 * p + i) = (if i mod a < 3
                    then slotWeight (sigmaWeight (DEG2RAD * DEG2RAD) as 0)
                           (sigmaWeight (DEG2RAD * DEG2RAD) as 1)
                           (sigmaWeight (DEG2RAD * DEG2RAD) as 2) (i mod a)
                    else m_weights this ! (3 * p + i)))"
proof -
  let ?w0 = "sigmaWeight (1 / 10 ^ 6) ps 0" and ?w1 = "sigmaWeight (1 / 10 ^ 6) ps 1"
    and ?w2 = "sigmaWeight (1 / 10 ^ 6) ps 2"
  let ?v0 = "sigmaWeight (DEG2RAD * DEG2RAD) as 0" and ?v1 = "sigmaWeight (DEG2RAD * DEG2RAD) as 1"
    and ?v2 = "sigmaWeight (DEG2RAD * DEG2RAD) as 2"
  let ?k = "pointingBlocks s"
  let ?A = "m_aprioriSigmas this" and ?W = "m_weights this"
  have ka: "(if solveTwist s then 3 * a else 2 * a) = ?k * a"
    by (simp add: pointingBlocks_def)
  have p1: "0 < p \<or> 3 * p = 0" by auto
  have p2: "\<forall>i<3 * p. i mod p < 3 \<longrightarrow> i mod p < length ps"
    using pres(1) mod_present by (cases "p = 0") auto
  have "0 + 3 * p \<le> length ?A" "length ?W = length ?A"
    using len by (simp_all add: N_def)
  from weightLoop_result[OF p1 this p2, of ?w0 ?w1 ?w2]
  obtain aps1 ws1 where
    run1: "forLoop (3 * p) (weightStep ps ?w0 ?w1 ?w2 p 0) (?A, ?W) = Inr (aps1, ws1)"
    and l1: "length aps1 = N" "length ws1 = N"
    and a1: "\<forall>j<N. aps1 ! j = (if j < 3 * p \<and> j mod p < 3 then ps ! (j mod p) else ?A ! j)"
    and w1: "\<forall>j<N. ws1 ! j =
         (if j < 3 * p \<and> j mod p < 3 then slotWeight ?w0 ?w1 ?w2 (j mod p) else ?W ! j)"
    using len by auto
  have q1: "0 < a \<or> ?k * a = 0" by auto
  have q2: "\<forall>i<?k * a. i mod a < 3 \<longrightarrow> i mod a < length as"
    using pres(2) mod_present by (cases "a = 0") auto
  have "3 * p + ?k * a \<le> length aps1" "length ws1 = length aps1"
    using l1 by (simp_all add: N_def)
  from weightLoop_result[OF q1 this q2, of ?v0 ?v1 ?v2]
  obtain aps2 ws2 where
    run2: "forLoop (?k * a) (weightStep as ?v0 ?v1 ?v2 a (3 * p)) (aps1, ws1) = Inr (aps2, ws2)"
    and l2: "length aps2 = N" "length ws2 = N"
    and a2: "\<forall>j<N. aps2 ! j =
         (if 3 * p \<le> j \<and> j < 3 * p + ?k * a \<and> (j - 3 * p) mod a < 3
          then as ! ((j - 3 * p) mod a) else aps1 ! j)"
    and w2: "\<forall>j<N. ws2 ! j =
         (if 3 * p \<le> j \<and> j < 3 * p + ?k * a \<and> (j - 3 * p) mod a < 3
          then slotWeight ?v0 ?v1 ?v2 ((j - 3 * p) mod a) else ws1 ! j)"
    using l1 by auto
  have run: "initParameterWeights this =
        Inr (True, this\<lparr> m_aprioriSigmas := aps2, m_weights := ws2 \<rparr>)"
    unfolding initParameterWeights_def Let_def set option.case
      p_def[symmetric] a_def[symmetric] ps_def[symmetric] as_def[symmetric] ka
    using run1 run2 by simp
  have pos: "\<forall>i<3 * p.
          aps2 ! i = (if i mod p < 3 then ps ! (i mod p) else ?A ! i)
        \<and> ws2 ! i = (if i mod p < 3 then slotWeight ?w0 ?w1 ?w2 (i mod p) else ?W ! i)"
    using a1 a2 w1 w2 by (auto simp: N_def)
  have pnt: "\<forall>i<?k * a.
          aps2 ! (3 * p + i) = (if i mod a < 3 then as ! (i mod a) else ?A ! (3 * p + i))
        \<and> ws2 ! (3 * p + i) =
            (if i mod a < 3 then slotWeight ?v0 ?v1 ?v2 (i mod a) else ?W ! (3 * p + i))"
    using a1 a2 w1 w2 by (auto simp: N_def)
  show ?thesis
    using run l2 pos pnt by blast
qed

lemma setSolveSettings_slots:
  fixes s :: BundleObservationSolveSettings
  defines "p \<equiv> numberCameraPositionCoefficientsSolved s"
    and "a \<equiv> numberCameraAngleCoefficientsSolved s"
    and "ps \<equiv> aprioriPositionSigmas s"
    and "as \<equiv> aprioriPointingSigmas s"
  defines "N \<equiv> 3 * p + pointingBlocks s * a"
  assumes pres: "sigmasPresent p ps" "sigmasPresent a as"
  shows "\<exists>aps ws.
      setSolveSettings s this =
        Inr (True, this\<lparr> m_solveSettings := Some s, m_weights := ws,
                          m_corrections := replicate N 0, m_aprioriSigmas := aps,
                          m_adjustedSigmas := replicate N 0 \<rparr>)
    \<and> length aps = N \<and> length ws = N
    \<and> (\<forall>i<3 * p.
          aps ! i = (if i mod p < 3 then ps ! (i mod p) else Isis_Null)
        \<and> ws ! i = (if i mod p < 3
                    then slotWeight (sigmaWeight (1 / 10 ^ 6) ps 0) (sigmaWeight (1 / 10 ^ 6) ps 1)
                           (sigmaWeight (1 / 10 ^ 6) ps 2) (i mod p)
                    else 0))
    \<and> (\<forall>i<pointingBlocks s * a.
          aps ! (3 * p + i) = (if i mod a < 3 then as ! (i mod a) else Isis_Null)
        \<and> ws ! (3 * p + i) = (if i mod a < 3
                    then slotWeight (sigmaWeight (DEG2RAD * DEG2RAD) as 0)
                           (sigmaWeight (DEG2RAD * DEG2RAD) as 1)
                           (sigmaWeight (DEG2RAD * DEG2RAD) as 2) (i mod a)
                    else 0))"
proof -
  let ?this1 = "this\<lparr> m_solveSettings := Some s, m_weights := replicate N 0,
      m_corrections := replicate N 0, m_aprioriSigmas := replicate N Isis_Null,
      m_adjustedSigmas := replicate N 0 \<rparr>"
  have Neq: "3 * numberCameraPositionCoefficientsSolved s
      + 2 * numberCameraAngleCoefficientsSolved s
      + (if numberCameraAngleCoefficientsSolved s \<ge> 1 \<and> solveTwist s
         then numberCameraAngleCoefficientsSolved s else 0) = N"
    by (auto simp: N_def pointingBlocks_def p_def a_def)
  have "m_solveSettings ?this1 = Some s" "length (m_aprioriSigmas ?this1) = N"
    "length (m_weights ?this1) = N"
    by simp_all
  from initParameterWeights_slots[OF this[unfolded N_def p_def a_def]
      pres[unfolded p_def a_def ps_def as_def]]
  obtain aps ws where
    init: "initParameterWeights ?this1 = Inr (True, ?this1\<lparr> m_aprioriSigmas := aps, m_weights := ws \<rparr>)"
    and l: "length aps = N" "length ws = N"
    and pos: "\<forall>i<3 * p.
          aps ! i = (if i mod p < 3 then ps ! (i mod p) else m_aprioriSigmas ?this1 ! i)
        \<and> ws ! i = (if i mod p < 3
                    then slotWeight (sigmaWeight (1 / 10 ^ 6) ps 0) (sigmaWeight (1 / 10 ^ 6) ps 1)
                           (sigmaWeight (1 / 10 ^ 6) ps 2) (i mod p)
                    else m_weights ?this1 ! i)"
    and pnt: "\<forall>i<pointingBlocks s * a.
          aps ! (3 * p + i) =
            (if i mod a < 3 then as ! (i mod a) else m_aprioriSigmas ?this1 ! (3 * p + i))
        \<and> ws ! (3 * p + i) = (if i mod a < 3
                    then slotWeight (sigmaWeight (DEG2RAD * DEG2RAD) as 0)
                           (sigmaWeight (DEG2RAD * DEG2RAD) as 1)
                           (sigmaWeight (DEG2RAD * DEG2RAD) as 2) (i mod a)
                    else m_weights ?this1 ! (3 * p + i))"
    unfolding N_def p_def a_def ps_def as_def by blast
  have run: "setSolveSettings s this =
        Inr (True, this\<lparr> m_solveSettings := Some s, m_weights := ws,
                          m_corrections := replicate N 0, m_aprioriSigmas := aps,
                          m_adjustedSigmas := replicate N 0 \<rparr>)"
    unfolding setSolveSettings_def Let_def Neq using init by simp
  have pos': "\<forall>i<3 * p.
          aps ! i = (if i mod p < 3 then ps ! (i mod p) else Isis_Null)
        \<and> ws ! i = (if i mod p < 3
                    then slotWeight (sigmaWeight (1 / 10 ^ 6) ps 0) (sigmaWeight (1 / 10 ^ 6) ps 1)
                           (sigmaWeight (1 / 10 ^ 6) ps 2) (i mod p)
                    else 0)"
    using pos by (auto simp: N_def)
  have pnt': "\<forall>i<pointingBlocks s * a.
          aps ! (3 * p + i) = (if i mod a < 3 then as ! (i mod a) else Isis_Null)
        \<and> ws ! (3 * p + i) = (if i mod a < 3
                    then slotWeight (sigmaWeight (DEG2RAD * DEG2RAD) as 0)
                           (sigmaWeight (DEG2RAD * DEG2RAD) as 1)
                           (sigmaWeight (DEG2RAD * DEG2RAD) as 2) (i mod a)
                    else 0)"
    using pnt by (auto simp: N_def)
  show ?thesis using run l pos' pnt' by blast
qed

lemmas weight_eval = setSolveSettings_def initParameterWeights_def weightStep_def
  assignSlot_def sigmaWeight_def settingsOf_def unroll

lemma sigmaWeight_present:
  assumes "sigmasPresent n sigmas" "r < 3" "r < n"
  shows "sigmaWeight scale sigmas r =
     (if sigmas ! r > 0 then 1 / (sigmas ! r * sigmas ! r * scale) else 0)"
  using assms by (simp add: sigmaWeight_def sigmasPresent_def min_def split: if_splits)

lemma slotWeight_sigma:
  assumes "r < 3"
  shows "slotWeight (sigmaWeight c xs 0) (sigmaWeight c xs 1) (sigmaWeight c xs 2) r
     = sigmaWeight c xs r"
proof -
  consider "r = 0" | "r = 1" | "r = 2" using assms by linarith
  then show ?thesis by cases (simp_all add: slotWeight_def)
qed

lemma fullSettings_fields:
  "numberCameraPositionCoefficientsSolved fullSettings = 3"
  "numberCameraAngleCoefficientsSolved fullSettings = 2"
  "aprioriPositionSigmas fullSettings = [1, 2, 0]"
  "aprioriPointingSigmas fullSettings = [1, 2]"
  "pointingBlocks fullSettings = 3"
  by (simp_all add: fullSettings_def settingsOf_def pointingBlocks_def)

text \<open>
  C4, as the code has it. When each list of a-priori sigmas has an entry for every
  sub-category in use, \<^verbatim>\<open>setSolveSettings\<close> returns true, and for a slot whose residue is
  below 3 the weight is \<open>1 / (sigma\<^sup>2 \<cdot> 1.0e-6)\<close> for a position slot and
  \<open>1 / (sigma\<^sup>2 \<cdot> DEG2RAD\<^sup>2)\<close> for a pointing slot if the entry is strictly positive and 0
  otherwise, while the stored a-priori sigma is the entry of the list as it is, positive
  or not. A slot whose residue is 3 or more keeps weight 0 and the sentinel.
\<close>

theorem weights_from_sigmas:
  fixes s :: BundleObservationSolveSettings
  defines "p \<equiv> numberCameraPositionCoefficientsSolved s"
    and "a \<equiv> numberCameraAngleCoefficientsSolved s"
    and "ps \<equiv> aprioriPositionSigmas s"
    and "as \<equiv> aprioriPointingSigmas s"
  assumes "sigmasPresent p ps" "sigmasPresent a as"
  shows "\<exists>this'. setSolveSettings s this = Inr (True, this')
    \<and> (\<forall>i<3 * p.
          (if i mod p < 3
           then m_weights this' ! i =
                  (if ps ! (i mod p) > 0
                   then 1 / (ps ! (i mod p) * ps ! (i mod p) * (1 / 10 ^ 6)) else 0)
              \<and> m_aprioriSigmas this' ! i = ps ! (i mod p)
           else m_weights this' ! i = 0 \<and> m_aprioriSigmas this' ! i = Isis_Null))
    \<and> (\<forall>i<pointingBlocks s * a.
          (if i mod a < 3
           then m_weights this' ! (3 * p + i) =
                  (if as ! (i mod a) > 0
                   then 1 / (as ! (i mod a) * as ! (i mod a) * (DEG2RAD * DEG2RAD)) else 0)
              \<and> m_aprioriSigmas this' ! (3 * p + i) = as ! (i mod a)
           else m_weights this' ! (3 * p + i) = 0
              \<and> m_aprioriSigmas this' ! (3 * p + i) = Isis_Null))"
proof -
  from setSolveSettings_slots[OF assms(5,6)[unfolded p_def a_def ps_def as_def], of this]
  obtain aps ws where
    run: "setSolveSettings s this =
        Inr (True, this\<lparr> m_solveSettings := Some s, m_weights := ws,
               m_corrections := replicate (3 * p + pointingBlocks s * a) 0,
               m_aprioriSigmas := aps,
               m_adjustedSigmas := replicate (3 * p + pointingBlocks s * a) 0 \<rparr>)"
    and pos: "\<forall>i<3 * p.
          aps ! i = (if i mod p < 3 then ps ! (i mod p) else Isis_Null)
        \<and> ws ! i = (if i mod p < 3
                    then slotWeight (sigmaWeight (1 / 10 ^ 6) ps 0) (sigmaWeight (1 / 10 ^ 6) ps 1)
                           (sigmaWeight (1 / 10 ^ 6) ps 2) (i mod p)
                    else 0)"
    and pnt: "\<forall>i<pointingBlocks s * a.
          aps ! (3 * p + i) = (if i mod a < 3 then as ! (i mod a) else Isis_Null)
        \<and> ws ! (3 * p + i) = (if i mod a < 3
                    then slotWeight (sigmaWeight (DEG2RAD * DEG2RAD) as 0)
                           (sigmaWeight (DEG2RAD * DEG2RAD) as 1)
                           (sigmaWeight (DEG2RAD * DEG2RAD) as 2) (i mod a)
                    else 0)"
    unfolding p_def a_def ps_def as_def by blast
  have wp: "i < 3 * p \<Longrightarrow> i mod p < 3 \<Longrightarrow>
      slotWeight (sigmaWeight (1 / 10 ^ 6) ps 0) (sigmaWeight (1 / 10 ^ 6) ps 1)
                           (sigmaWeight (1 / 10 ^ 6) ps 2) (i mod p)
      = (if ps ! (i mod p) > 0
                   then 1 / (ps ! (i mod p) * ps ! (i mod p) * (1 / 10 ^ 6)) else 0)" for i
    using sigmaWeight_present[OF assms(5), of "i mod p"] slotWeight_sigma[of "i mod p"]
    by (cases "p = 0") auto
  have wa: "i < pointingBlocks s * a \<Longrightarrow> i mod a < 3 \<Longrightarrow>
      slotWeight (sigmaWeight (DEG2RAD * DEG2RAD) as 0)
                           (sigmaWeight (DEG2RAD * DEG2RAD) as 1)
                           (sigmaWeight (DEG2RAD * DEG2RAD) as 2) (i mod a)
      = (if as ! (i mod a) > 0
                   then 1 / (as ! (i mod a) * as ! (i mod a) * (DEG2RAD * DEG2RAD)) else 0)" for i
    using sigmaWeight_present[OF assms(6), of "i mod a"] slotWeight_sigma[of "i mod a"]
    by (cases "a = 0") auto
  show ?thesis
    apply (rule exI)
    apply (rule conjI[OF run])
    using pos pnt wp wa by simp
qed

text \<open>The theorem at three position and two pointing coefficients, twist solved.\<close>

theorem weights_from_sigmas_witness:
  "sigmasPresent 3 [1, 2, 0] \<and> sigmasPresent 2 [1, 2]
   \<and> (\<exists>this'. setSolveSettings fullSettings BundleObservation_default = Inr (True, this')
        \<and> m_weights this' ! 1 = 1 / (2 * 2 * (1 / 10 ^ 6))
        \<and> m_aprioriSigmas this' ! 1 = 2
        \<and> m_weights this' ! 2 = 0
        \<and> m_aprioriSigmas this' ! 2 = 0
        \<and> m_weights this' ! (3 * 3 + 3) = 1 / (2 * 2 * (DEG2RAD * DEG2RAD)))"
proof -
  have h1: "sigmasPresent (numberCameraPositionCoefficientsSolved fullSettings)
      (aprioriPositionSigmas fullSettings)"
    and h2: "sigmasPresent (numberCameraAngleCoefficientsSolved fullSettings)
      (aprioriPointingSigmas fullSettings)"
    by (simp_all add: fullSettings_fields sigmasPresent_def)
  from weights_from_sigmas[OF h1 h2, of BundleObservation_default, unfolded fullSettings_fields]
  obtain this' where
    run: "setSolveSettings fullSettings BundleObservation_default = Inr (True, this')"
    and pos: "\<forall>i<3 * 3.
          (if i mod 3 < 3
           then m_weights this' ! i =
                  (if [1, 2, 0::real] ! (i mod 3) > 0
                   then 1 / ([1, 2, 0] ! (i mod 3) * [1, 2, 0] ! (i mod 3) * (1 / 10 ^ 6)) else 0)
              \<and> m_aprioriSigmas this' ! i = [1, 2, 0] ! (i mod 3)
           else m_weights this' ! i = 0 \<and> m_aprioriSigmas this' ! i = Isis_Null)"
    and pnt: "\<forall>i<3 * 2.
          (if i mod 2 < 3
           then m_weights this' ! (3 * 3 + i) =
                  (if [1, 2::real] ! (i mod 2) > 0
                   then 1 / ([1, 2] ! (i mod 2) * [1, 2] ! (i mod 2) * (DEG2RAD * DEG2RAD)) else 0)
              \<and> m_aprioriSigmas this' ! (3 * 3 + i) = [1, 2] ! (i mod 2)
           else m_weights this' ! (3 * 3 + i) = 0
              \<and> m_aprioriSigmas this' ! (3 * 3 + i) = Isis_Null)"
    by blast
  from pos[rule_format, of 1] pos[rule_format, of 2] pnt[rule_format, of 3]
  have "m_weights this' ! 1 = 1 / (2 * 2 * (1 / 10 ^ 6))"
    "m_aprioriSigmas this' ! 1 = 2"
    "m_weights this' ! 2 = 0"
    "m_aprioriSigmas this' ! 2 = 0"
    "m_weights this' ! (3 * 3 + 3) = 1 / (2 * 2 * (DEG2RAD * DEG2RAD))"
    by simp_all
  with run h1 h2 show ?thesis
    unfolding fullSettings_fields by blast
qed

text \<open>
  C4 as it is worded fails: a position sigma of 0 gives weight 0, and the stored a-priori
  sigma of the slot is then 0, not the sentinel.
\<close>

theorem nonpositive_sigma_is_stored:
  "setSolveSettings zeroSigmaSettings BundleObservation_default =
     Inr (True, BundleObservation_default
        \<lparr> m_solveSettings := Some zeroSigmaSettings,
          m_weights := [0, 0, 0], m_corrections := [0, 0, 0],
          m_aprioriSigmas := [0, 0, 0], m_adjustedSigmas := [0, 0, 0] \<rparr>)
   \<and> Isis_Null \<noteq> 0"
  by (simp add: weight_eval zeroSigmaSettings_def Isis_Null_def)




text \<open>
  C6 at settings whose list of position sigmas is empty while one position coefficient is
  solved: the first pass of the position loop reads \<^verbatim>\<open>aprioriPositionSigmas.at(0)\<close>, which
  is out of range, so the call does not return true.
\<close>

theorem setSolveSettings_empty_sigma_list:
  "setSolveSettings emptySigmaSettings BundleObservation_default = Inl ListIndexOutOfRange"
  by (simp add: weight_eval emptySigmaSettings_def)

subsection \<open>Applying parameter corrections\<close>

lemma length_addSlice:
  "index + n \<le> length corrections \<Longrightarrow> length (addSlice corrections index n coef) = length coef"
  by (simp add: addSlice_def)

lemma nth_addSlice:
  assumes "index + n \<le> length corrections" "j < length coef"
  shows "addSlice corrections index n coef ! j =
     (if j < n then dadd (coef ! j) (corrections ! (index + j)) else coef ! j)"
  using assms by (auto simp: addSlice_def nth_append min_def)

lemma addLoop_result:
  assumes "index + n \<le> length corrections" "n \<le> length coef"
  shows "forLoop n (addCorrection corrections) (coef, index) =
     Inr (addSlice corrections index n coef, index + n)"
  using assms
proof (induction n)
  case 0
  then show ?case by (simp add: addSlice_def)
next
  case (Suc n)
  have eq: "(addSlice corrections index n coef)
      [n := dadd (addSlice corrections index n coef ! n) (corrections ! (index + n))]
      = addSlice corrections index (Suc n) coef"
    using Suc.prems
    by (intro nth_equalityI) (auto simp: length_addSlice nth_addSlice nth_list_update)
  show ?case
    using Suc eq by (simp add: forLoop_Suc addCorrection_def length_addSlice)
qed

lemma positionBroadcast_result:
  assumes "n \<le> length (images this)"
    "\<forall>i<n. cameraInstrumentPosition (images this ! i) \<noteq> None"
  shows "forLoop n (setImagePosition this cx cy cz ty) st =
     Inr (st\<lparr> positions := (\<lambda>a.
            if Some a \<in> set (map cameraInstrumentPosition (take n (images this)))
            then SetPolynomialCoefficients cx cy cz ty (positions st a)
            else positions st a) \<rparr>)"
  using assms
proof (induction n)
  case 0
  then show ?case by simp
next
  case (Suc n)
  then obtain a where a: "cameraInstrumentPosition (images this ! n) = Some a"
    by auto
  have tk: "take (Suc n) (images this) = take n (images this) @ [images this ! n]"
    using Suc.prems by (simp add: take_Suc_conv_app_nth)
  show ?case
    using Suc a
    by (auto simp: forLoop_Suc setImagePosition_def tk fun_eq_iff SetPolynomialCoefficients_def)
qed

lemma rotationBroadcast_result:
  assumes "n \<le> length (images this)"
    "\<forall>i<n. cameraInstrumentRotation (images this ! i) \<noteq> None"
  shows "forLoop n (setImageRotation this cx cy cz ty) st =
     Inr (st\<lparr> rotations := (\<lambda>a.
            if Some a \<in> set (map cameraInstrumentRotation (take n (images this)))
            then SetPolynomialCoefficients cx cy cz ty (rotations st a)
            else rotations st a) \<rparr>)"
  using assms
proof (induction n)
  case 0
  then show ?case by simp
next
  case (Suc n)
  then obtain a where a: "cameraInstrumentRotation (images this ! n) = Some a"
    by auto
  have tk: "take (Suc n) (images this) = take n (images this) @ [images this ! n]"
    using Suc.prems by (simp add: take_Suc_conv_app_nth)
  show ?case
    using Suc a
    by (auto simp: forLoop_Suc setImageRotation_def tk fun_eq_iff SetPolynomialCoefficients_def)
qed

lemma haveSources_nth:
  "haveSources this \<Longrightarrow> i < length (images this) \<Longrightarrow>
     cameraInstrumentPosition (images this ! i) \<noteq> None
     \<and> cameraInstrumentRotation (images this ! i) \<noteq> None"
  by (simp add: haveSources_def list_all_length)

lemma positionBroadcast_all:
  assumes "haveSources this"
  shows "forLoop (length (images this)) (setImagePosition this cx cy cz ty) st =
     Inr (broadcastPosition this cx cy cz ty st)"
  using positionBroadcast_result[of "length (images this)" this cx cy cz ty st]
    haveSources_nth[OF assms]
  by (simp add: broadcastPosition_def isMemberPosition_def)

lemma rotationBroadcast_all:
  assumes "haveSources this"
  shows "forLoop (length (images this)) (setImageRotation this cx cy cz ty) st =
     Inr (broadcastRotation this cx cy cz ty st)"
  using rotationBroadcast_result[of "length (images this)" this cx cy cz ty st]
    haveSources_nth[OF assms]
  by (simp add: broadcastRotation_def isMemberRotation_def)

lemma positionBlock_result:
  fixes s :: BundleObservationSolveSettings
  defines "p \<equiv> numberCameraPositionCoefficientsSolved s"
  assumes opt: "instrumentPositionSolveOption s \<noteq> NoPositionFactors"
    and canon: "m_instrumentPosition this = Some q"
    and holds: "holdsCoefficients p (positions st q)"
    and len: "index + 3 * p \<le> length corrections"
    and src: "haveSources this"
  shows "positionBlock corrections this s index st =
     Inr (None, index + 3 * p,
          broadcastPosition this
            (addSlice corrections index p (coefficients1 (positions st q)))
            (addSlice corrections (index + p) p (coefficients2 (positions st q)))
            (addSlice corrections (index + 2 * p) p (coefficients3 (positions st q)))
            (positionInterpolationType s) st)"
proof -
  have b: "index + p \<le> length corrections" "index + p + p \<le> length corrections"
    "index + 2 * p + p \<le> length corrections"
    using len by simp_all
  have h: "p \<le> length (coefficients1 (positions st q))"
    "p \<le> length (coefficients2 (positions st q))"
    "p \<le> length (coefficients3 (positions st q))"
    using holds by (simp_all add: holdsCoefficients_def)
  have l1: "forLoop p (addCorrection corrections) (coefficients1 (positions st q), index)
      = Inr (addSlice corrections index p (coefficients1 (positions st q)), index + p)"
    by (rule addLoop_result[OF b(1) h(1)])
  have l2: "forLoop p (addCorrection corrections) (coefficients2 (positions st q), index + p)
      = Inr (addSlice corrections (index + p) p (coefficients2 (positions st q)), index + 2 * p)"
    using addLoop_result[OF b(2) h(2)] by simp
  have l3: "forLoop p (addCorrection corrections) (coefficients3 (positions st q), index + 2 * p)
      = Inr (addSlice corrections (index + 2 * p) p (coefficients3 (positions st q)),
             index + 3 * p)"
    using addLoop_result[OF b(3) h(3)] by simp
  show ?thesis
    unfolding positionBlock_def Let_def p_def[symmetric]
    using opt canon
    by (simp add: GetPolynomial_def l1 l2 l3 positionBroadcast_all[OF src])
qed

lemma pointingBlock_result:
  fixes s :: BundleObservationSolveSettings
  defines "a \<equiv> numberCameraAngleCoefficientsSolved s"
  assumes opt: "instrumentPointingSolveOption s \<noteq> NoPointingFactors"
    and canon: "m_instrumentRotation this = Some q"
    and holds: "holdsCoefficients a (rotations st q)"
    and len: "index + pointingBlocks s * a \<le> length corrections"
    and src: "haveSources this"
  shows "pointingBlock corrections this s index st =
     Inr (None, index + pointingBlocks s * a,
          broadcastRotation this
            (addSlice corrections index a (coefficients1 (rotations st q)))
            (addSlice corrections (index + a) a (coefficients2 (rotations st q)))
            (if solveTwist s
             then addSlice corrections (index + 2 * a) a (coefficients3 (rotations st q))
             else coefficients3 (rotations st q))
            (pointingInterpolationType s) st)"
proof -
  have b: "index + a \<le> length corrections" "index + a + a \<le> length corrections"
    using len by (simp_all add: pointingBlocks_def split: if_splits)
  have b3: "solveTwist s \<Longrightarrow> index + 2 * a + a \<le> length corrections"
    using len by (simp add: pointingBlocks_def)
  have h: "a \<le> length (coefficients1 (rotations st q))"
    "a \<le> length (coefficients2 (rotations st q))"
    "a \<le> length (coefficients3 (rotations st q))"
    using holds by (simp_all add: holdsCoefficients_def)
  have l1: "forLoop a (addCorrection corrections) (coefficients1 (rotations st q), index)
      = Inr (addSlice corrections index a (coefficients1 (rotations st q)), index + a)"
    by (rule addLoop_result[OF b(1) h(1)])
  have l2: "forLoop a (addCorrection corrections) (coefficients2 (rotations st q), index + a)
      = Inr (addSlice corrections (index + a) a (coefficients2 (rotations st q)), index + 2 * a)"
    using addLoop_result[OF b(2) h(2)] by simp
  have l3: "solveTwist s \<Longrightarrow>
      forLoop a (addCorrection corrections) (coefficients3 (rotations st q), index + 2 * a)
      = Inr (addSlice corrections (index + 2 * a) a (coefficients3 (rotations st q)),
             index + 3 * a)"
    using addLoop_result[OF b3 h(3)] by simp
  show ?thesis
    unfolding pointingBlock_def Let_def a_def[symmetric]
    using opt canon
    by (simp add: GetPolynomial_def l1 l2 l3 rotationBroadcast_all[OF src] pointingBlocks_def)
qed

lemma wellFormed_sources:
  assumes "wellFormed this st" "m_solveSettings this = Some s"
  shows "haveSources this"
    "\<exists>q. m_instrumentPosition this = Some q \<and> isMemberPosition this q"
    "\<exists>q. m_instrumentRotation this = Some q \<and> isMemberRotation this q"
proof -
  from assms have ne: "images this \<noteq> []" and hs: "haveSources this"
    and cp: "m_instrumentPosition this = cameraInstrumentPosition (hd (images this))"
    and cr: "m_instrumentRotation this = cameraInstrumentRotation (hd (images this))"
    by (simp_all add: wellFormed_def)
  show "haveSources this" by (rule hs)
  from ne have hd_in: "hd (images this) \<in> set (images this)" by simp
  from haveSources_nth[OF hs, of 0] ne
  have "cameraInstrumentPosition (hd (images this)) \<noteq> None"
    "cameraInstrumentRotation (hd (images this)) \<noteq> None"
    by (simp_all add: hd_conv_nth)
  then obtain q r where "cameraInstrumentPosition (hd (images this)) = Some q"
    "cameraInstrumentRotation (hd (images this)) = Some r"
    by auto
  with cp cr hd_in show "\<exists>q. m_instrumentPosition this = Some q \<and> isMemberPosition this q"
    "\<exists>q. m_instrumentRotation this = Some q \<and> isMemberRotation this q"
    by (auto simp: isMemberPosition_def isMemberRotation_def image_iff intro!: bexI[of _ "hd (images this)"])
qed

lemma positionBlock_wellFormed:
  assumes wf: "wellFormed this st" and set: "m_solveSettings this = Some s"
    and len: "3 * numberCameraPositionCoefficientsSolved s
              + pointingBlocks s * numberCameraAngleCoefficientsSolved s = length c"
  shows "positionBlock c this s 0 st = Inr (None, positionIndex s, correctedPositions c this s st)"
proof (cases "instrumentPositionSolveOption s = NoPositionFactors")
  case True
  then show ?thesis
    by (simp add: positionBlock_def positionIndex_def correctedPositions_def split: option.splits)
next
  case False
  from wellFormed_sources[OF wf set] obtain q where q: "m_instrumentPosition this = Some q"
    and hs: "haveSources this" by blast
  from wf set False q
  have h: "holdsCoefficients (numberCameraPositionCoefficientsSolved s) (positions st q)"
    by (simp add: wellFormed_def)
  have l: "0 + 3 * numberCameraPositionCoefficientsSolved s \<le> length c"
    using len by simp
  show ?thesis
    using positionBlock_result[OF False q h l hs] False q
    by (simp add: positionIndex_def correctedPositions_def Let_def)
qed

lemma pointingBlock_wellFormed:
  assumes wf: "wellFormed this st" and set: "m_solveSettings this = Some s"
    and len: "3 * numberCameraPositionCoefficientsSolved s
              + pointingBlocks s * numberCameraAngleCoefficientsSolved s = length c"
    and pos: "rotations st' = rotations st"
  shows "\<exists>index. pointingBlock c this s (positionIndex s) st' =
     Inr (None, index, correctedRotations c this s st')"
proof (cases "instrumentPointingSolveOption s = NoPointingFactors")
  case True
  then show ?thesis
    by (simp add: pointingBlock_def correctedRotations_def split: option.splits)
next
  case False
  from wellFormed_sources[OF wf set] obtain q where q: "m_instrumentRotation this = Some q"
    and hs: "haveSources this" by blast
  from wf set False q pos
  have h: "holdsCoefficients (numberCameraAngleCoefficientsSolved s) (rotations st' q)"
    by (simp add: wellFormed_def)
  have l: "positionIndex s + pointingBlocks s * numberCameraAngleCoefficientsSolved s \<le> length c"
    using len by (simp add: positionIndex_def)
  show ?thesis
    using pointingBlock_result[OF False q h l hs] False q
    by (simp add: correctedRotations_def Let_def)
qed

lemma rotations_correctedPositions [simp]:
  "rotations (correctedPositions c this s st) = rotations st"
  by (simp add: correctedPositions_def broadcastPosition_def Let_def split: option.splits)

lemma positions_correctedRotations [simp]:
  "positions (correctedRotations c this s st) = positions st"
  by (simp add: correctedRotations_def broadcastRotation_def Let_def split: option.splits)

lemma correctedPositions_cong:
  assumes "positions st = positions st'"
  shows "positions (correctedPositions c this s st) = positions (correctedPositions c this s st')"
  using assms
  by (simp add: correctedPositions_def broadcastPosition_def Let_def fun_eq_iff
      split: option.splits)

lemma correctedRotations_cong:
  assumes "rotations st = rotations st'"
  shows "rotations (correctedRotations c this s st) = rotations (correctedRotations c this s st')"
  using assms
  by (simp add: correctedRotations_def broadcastRotation_def Let_def fun_eq_iff
      split: option.splits)

text \<open>What a call does on a well-formed observation.\<close>

lemma applyParameterCorrections_wellFormed:
  assumes wf: "wellFormed this st" and set: "m_solveSettings this = Some s"
    and len: "3 * numberCameraPositionCoefficientsSolved s
              + pointingBlocks s * numberCameraAngleCoefficientsSolved s = length c"
  shows "applyParameterCorrections c this st =
     Inr (Returned True, this\<lparr> m_corrections := map2 dadd (m_corrections this) c \<rparr>,
          correctedRotations c this s (correctedPositions c this s st))"
proof -
  note pb = positionBlock_wellFormed[OF wf set len]
  from pointingBlock_wellFormed[OF wf set len, of "correctedPositions c this s st"]
  obtain index where rb: "pointingBlock c this s (positionIndex s) (correctedPositions c this s st)
      = Inr (None, index, correctedRotations c this s (correctedPositions c this s st))"
    by auto
  have lc: "length (m_corrections this) = length c"
    using wf set len by (simp add: wellFormed_def)
  show ?thesis
    by (simp add: applyParameterCorrections_def applyParameterCorrections_try_def set pb rb
        plusAssign_def lc)
qed

text \<open>Two additions associate when none of the four sums involved rounds.\<close>

lemma exact_sumsAssociate:
  assumes "dadd x a = x + a" "dadd (x + a) b = x + a + b"
    and "dadd a b = a + b" "dadd x (a + b) = x + a + b"
    and "finiteDouble (x + a)" "finiteDouble (a + b)" "finiteDouble (x + a + b)"
  shows "sumsAssociate x a b"
  using assms by (simp add: sumsAssociate_def)

text \<open>So they do on integers whose magnitudes sum to less than \<open>2\<^sup>5\<^sup>3\<close>.\<close>

lemma ints_sumsAssociate:
  assumes "x \<in> \<int>" "a \<in> \<int>" "b \<in> \<int>" "\<bar>x\<bar> + \<bar>a\<bar> + \<bar>b\<bar> < 2 ^ 53"
  shows "sumsAssociate x a b"
proof (rule exact_sumsAssociate)
  show "dadd x a = x + a" using assms by (intro dadd_ints) auto
  show "dadd (x + a) b = x + a + b" using assms by (intro dadd_ints) auto
  show "dadd a b = a + b" using assms by (intro dadd_ints) auto
  show "dadd x (a + b) = x + a + b"
    using assms dadd_ints[of x "a + b"] by (auto simp: add.assoc)
  have "(2::real) ^ 53 \<le> 2 ^ 1024" by (rule power_increasing) simp_all
  with assms(4) show "finiteDouble (x + a)" "finiteDouble (a + b)" "finiteDouble (x + a + b)"
    by (auto simp: finiteDouble_def)
qed

lemma sliceAssociates_nth:
  assumes "sliceAssociates c1 c2 index n coef"
    and "length c2 = length c1" "index + n \<le> length c1" "j < n" "j < length coef"
  shows "dadd (dadd (coef ! j) (c1 ! (index + j))) (c2 ! (index + j))
       = dadd (coef ! j) (dadd (c1 ! (index + j)) (c2 ! (index + j)))"
proof -
  let ?zs = "zip (take n coef) (zip (take n (drop index c1)) (take n (drop index c2)))"
  have j: "j < length ?zs" using assms by simp
  have nth: "?zs ! j = (coef ! j, c1 ! (index + j), c2 ! (index + j))"
    using assms by simp
  from assms(1) have "\<forall>i<length ?zs. (\<lambda>(x, a, b). sumsAssociate x a b) (?zs ! i)"
    unfolding sliceAssociates_def list_all_length .
  from this[rule_format, OF j] show ?thesis
    unfolding nth by (simp add: sumsAssociate_def)
qed

lemma addSlice_twice:
  assumes "length c2 = length c1" "index + n \<le> length c1"
    and "sliceAssociates c1 c2 index n coef"
  shows "addSlice c2 index n (addSlice c1 index n coef) = addSlice (map2 dadd c1 c2) index n coef"
proof (rule nth_equalityI)
  show "length (addSlice c2 index n (addSlice c1 index n coef))
      = length (addSlice (map2 dadd c1 c2) index n coef)"
    using assms by (simp add: length_addSlice)
next
  fix j
  assume "j < length (addSlice c2 index n (addSlice c1 index n coef))"
  then have j: "j < length coef" using assms by (simp add: length_addSlice)
  have b2: "index + n \<le> length c2" "index + n \<le> length (map2 dadd c1 c2)"
    using assms by simp_all
  have j1: "j < length (addSlice c1 index n coef)"
    using j assms by (simp add: length_addSlice)
  show "addSlice c2 index n (addSlice c1 index n coef) ! j
      = addSlice (map2 dadd c1 c2) index n coef ! j"
  proof (cases "j < n")
    case True
    have m: "map2 dadd c1 c2 ! (index + j) = dadd (c1 ! (index + j)) (c2 ! (index + j))"
      using True assms(1,2) by simp
    show ?thesis
      unfolding nth_addSlice[OF b2(1) j1] nth_addSlice[OF assms(2) j] nth_addSlice[OF b2(2) j] m
      using True sliceAssociates_nth[OF assms(3,1,2) True j] by simp
  next
    case False
    then show ?thesis
      unfolding nth_addSlice[OF b2(1) j1] nth_addSlice[OF assms(2) j] nth_addSlice[OF b2(2) j]
      by simp
  qed
qed

lemma accumulator_twice:
  assumes "length m = length c1" "length c2 = length c1"
    and "sliceAssociates c1 c2 0 (length m) m"
  shows "map2 dadd (map2 dadd m c1) c2 = map2 dadd m (map2 dadd c1 c2)"
proof (rule nth_equalityI)
  show "length (map2 dadd (map2 dadd m c1) c2) = length (map2 dadd m (map2 dadd c1 c2))"
    using assms by simp
next
  fix j
  assume "j < length (map2 dadd (map2 dadd m c1) c2)"
  then have j: "j < length m" using assms by simp
  have b: "0 + length m \<le> length c1" using assms by simp
  have "dadd (dadd (m ! j) (c1 ! j)) (c2 ! j) = dadd (m ! j) (dadd (c1 ! j) (c2 ! j))"
    using sliceAssociates_nth[OF assms(3,2) b j j] by simp
  then show "map2 dadd (map2 dadd m c1) c2 ! j = map2 dadd m (map2 dadd c1 c2) ! j"
    using j assms(1,2) by simp
qed

lemma broadcastPosition_member:
  assumes "isMemberPosition this q"
  shows "coefficients1 (positions (broadcastPosition this cx cy cz ty st) q) = cx"
    "coefficients2 (positions (broadcastPosition this cx cy cz ty st) q) = cy"
    "coefficients3 (positions (broadcastPosition this cx cy cz ty st) q) = cz"
  using assms by (simp_all add: broadcastPosition_def SetPolynomialCoefficients_def)

lemma broadcastRotation_member:
  assumes "isMemberRotation this q"
  shows "coefficients1 (rotations (broadcastRotation this cx cy cz ty st) q) = cx"
    "coefficients2 (rotations (broadcastRotation this cx cy cz ty st) q) = cy"
    "coefficients3 (rotations (broadcastRotation this cx cy cz ty st) q) = cz"
  using assms by (simp_all add: broadcastRotation_def SetPolynomialCoefficients_def)

lemma broadcastPosition_twice:
  "broadcastPosition this cx cy cz ty (broadcastPosition this cx' cy' cz' ty' st)
   = broadcastPosition this cx cy cz ty st"
  by (simp add: broadcastPosition_def SetPolynomialCoefficients_def fun_eq_iff)

lemma broadcastRotation_twice:
  "broadcastRotation this cx cy cz ty (broadcastRotation this cx' cy' cz' ty' st)
   = broadcastRotation this cx cy cz ty st"
  by (simp add: broadcastRotation_def SetPolynomialCoefficients_def fun_eq_iff)

lemma broadcast_corrections [simp]:
  "broadcastPosition (this\<lparr> m_corrections := m \<rparr>) = broadcastPosition this"
  "broadcastRotation (this\<lparr> m_corrections := m \<rparr>) = broadcastRotation this"
  by (simp_all add: broadcastPosition_def broadcastRotation_def isMemberPosition_def
      isMemberRotation_def fun_eq_iff)

lemma corrected_corrections [simp]:
  "correctedPositions c (this\<lparr> m_corrections := m \<rparr>) = correctedPositions c this"
  "correctedRotations c (this\<lparr> m_corrections := m \<rparr>) = correctedRotations c this"
  by (simp_all add: correctedPositions_def correctedRotations_def fun_eq_iff Let_def
      split: option.splits)

lemma correctedPositions_twice:
  assumes wf: "wellFormed this st0" and set: "m_solveSettings this = Some s"
    and len: "3 * numberCameraPositionCoefficientsSolved s
              + pointingBlocks s * numberCameraAngleCoefficientsSolved s = length c1"
      "length c2 = length c1"
    and assoc: "additionsAssociate c1 c2 this s st1" and same: "positions st = positions st1"
  shows "correctedPositions c2 this s (correctedPositions c1 this s st)
     = correctedPositions (map2 dadd c1 c2) this s st"
proof (cases "instrumentPositionSolveOption s = NoPositionFactors")
  case True
  then show ?thesis by (simp add: correctedPositions_def split: option.splits)
next
  case False
  from wellFormed_sources[OF wf set] obtain q where q: "m_instrumentPosition this = Some q"
    and mem: "isMemberPosition this q" by blast
  let ?p = "numberCameraPositionCoefficientsSolved s"
  have b: "0 + ?p \<le> length c1" "?p + ?p \<le> length c1" "2 * ?p + ?p \<le> length c1"
    using len by simp_all
  from assoc False q
  have sl: "sliceAssociates c1 c2 0 ?p (coefficients1 (positions st q))"
    "sliceAssociates c1 c2 ?p ?p (coefficients2 (positions st q))"
    "sliceAssociates c1 c2 (2 * ?p) ?p (coefficients3 (positions st q))"
    by (simp_all add: additionsAssociate_def Let_def same)
  show ?thesis
    using False q
    by (simp add: correctedPositions_def Let_def broadcastPosition_member[OF mem]
        broadcastPosition_twice addSlice_twice[OF len(2) b(1) sl(1)]
        addSlice_twice[OF len(2) b(2) sl(2)] addSlice_twice[OF len(2) b(3) sl(3)])
qed

lemma correctedRotations_twice:
  assumes wf: "wellFormed this st0" and set: "m_solveSettings this = Some s"
    and len: "3 * numberCameraPositionCoefficientsSolved s
              + pointingBlocks s * numberCameraAngleCoefficientsSolved s = length c1"
      "length c2 = length c1"
    and assoc: "additionsAssociate c1 c2 this s st1" and same: "rotations st = rotations st1"
  shows "correctedRotations c2 this s (correctedRotations c1 this s st)
     = correctedRotations (map2 dadd c1 c2) this s st"
proof (cases "instrumentPointingSolveOption s = NoPointingFactors")
  case True
  then show ?thesis by (simp add: correctedRotations_def split: option.splits)
next
  case False
  from wellFormed_sources[OF wf set] obtain q where q: "m_instrumentRotation this = Some q"
    and mem: "isMemberRotation this q" by blast
  let ?a = "numberCameraAngleCoefficientsSolved s" and ?i = "positionIndex s"
  have i: "?i \<le> 3 * numberCameraPositionCoefficientsSolved s"
    by (simp add: positionIndex_def)
  have b: "?i + ?a \<le> length c1" "?i + ?a + ?a \<le> length c1"
    using len i by (simp_all add: pointingBlocks_def split: if_splits)
  have b3: "solveTwist s \<Longrightarrow> ?i + 2 * ?a + ?a \<le> length c1"
    using len i by (simp add: pointingBlocks_def)
  from assoc False q
  have sl: "sliceAssociates c1 c2 ?i ?a (coefficients1 (rotations st q))"
    "sliceAssociates c1 c2 (?i + ?a) ?a (coefficients2 (rotations st q))"
    and sl3: "solveTwist s \<Longrightarrow>
      sliceAssociates c1 c2 (?i + 2 * ?a) ?a (coefficients3 (rotations st q))"
    by (simp_all add: additionsAssociate_def Let_def same)
  show ?thesis
    using False q
    by (simp add: correctedRotations_def Let_def broadcastRotation_member[OF mem]
        broadcastRotation_twice addSlice_twice[OF len(2) b(1) sl(1)]
        addSlice_twice[OF len(2) b(2) sl(2)] addSlice_twice[OF len(2) b3 sl3])
qed

lemma wellFormed_after:
  assumes wf: "wellFormed this st" and set: "m_solveSettings this = Some s"
    and len: "3 * numberCameraPositionCoefficientsSolved s
              + pointingBlocks s * numberCameraAngleCoefficientsSolved s = length c"
  shows "wellFormed (this\<lparr> m_corrections := map2 dadd (m_corrections this) c \<rparr>)
           (correctedRotations c this s (correctedPositions c this s st))"
proof -
  let ?p = "numberCameraPositionCoefficientsSolved s"
  let ?a = "numberCameraAngleCoefficientsSolved s" and ?i = "positionIndex s"
  from wellFormed_sources[OF wf set] obtain q r where q: "m_instrumentPosition this = Some q"
    and mq: "isMemberPosition this q" and r: "m_instrumentRotation this = Some r"
    and mr: "isMemberRotation this r" by blast
  have lc: "length (m_corrections this) = length c"
    using wf set len by (simp add: wellFormed_def)
  have i: "?i \<le> 3 * ?p" by (simp add: positionIndex_def)
  have bp: "0 + ?p \<le> length c" "?p + ?p \<le> length c" "2 * ?p + ?p \<le> length c"
    using len by simp_all
  have br: "?i + ?a \<le> length c" "?i + ?a + ?a \<le> length c"
    using len i by (simp_all add: pointingBlocks_def split: if_splits)
  have br3: "solveTwist s \<Longrightarrow> ?i + 2 * ?a + ?a \<le> length c"
    using len i by (simp add: pointingBlocks_def)
  have hp0: "instrumentPositionSolveOption s \<noteq> NoPositionFactors \<Longrightarrow>
      holdsCoefficients ?p (positions st q)"
    using wf set q by (simp add: wellFormed_def)
  have hp: "instrumentPositionSolveOption s \<noteq> NoPositionFactors \<Longrightarrow>
      holdsCoefficients ?p (positions (correctedPositions c this s st) q)"
    using hp0 q
    by (simp add: correctedPositions_def Let_def holdsCoefficients_def
        broadcastPosition_member[OF mq] length_addSlice[OF bp(1)] length_addSlice[OF bp(2)]
        length_addSlice[OF bp(3)])
  have hr0: "instrumentPointingSolveOption s \<noteq> NoPointingFactors \<Longrightarrow>
      holdsCoefficients ?a (rotations st r)"
    using wf set r by (simp add: wellFormed_def)
  have hr: "instrumentPointingSolveOption s \<noteq> NoPointingFactors \<Longrightarrow>
      holdsCoefficients ?a (rotations (correctedRotations c this s (correctedPositions c this s st)) r)"
    using hr0 r
    by (cases "solveTwist s")
      (simp_all add: correctedRotations_def Let_def holdsCoefficients_def
        broadcastRotation_member[OF mr] length_addSlice[OF br(1)] length_addSlice[OF br(2)]
        length_addSlice[OF br3])
  let ?this1 = "this\<lparr> m_corrections := map2 dadd (m_corrections this) c \<rparr>"
  let ?st1 = "correctedRotations c this s (correctedPositions c this s st)"
  from wf set have ne: "images this \<noteq> []" and hs: "haveSources this"
    and cp: "m_instrumentPosition this = cameraInstrumentPosition (hd (images this))"
    and cr: "m_instrumentRotation this = cameraInstrumentRotation (hd (images this))"
    and l0: "length (m_corrections this) = 3 * ?p + pointingBlocks s * ?a"
    by (simp_all add: wellFormed_def)
  have sel: "m_solveSettings ?this1 = Some s" "images ?this1 = images this"
    "m_instrumentPosition ?this1 = m_instrumentPosition this"
    "m_instrumentRotation ?this1 = m_instrumentRotation this"
    using set by simp_all
  have hs1: "haveSources ?this1"
    using hs by (simp add: haveSources_def)
  have l1: "length (m_corrections ?this1) = 3 * ?p + pointingBlocks s * ?a"
    using l0 lc by simp
  have hp': "instrumentPositionSolveOption s = NoPositionFactors
      \<or> (case m_instrumentPosition this of
            None \<Rightarrow> False
          | Some q \<Rightarrow> holdsCoefficients ?p (positions ?st1 q))"
    using hp by (cases "instrumentPositionSolveOption s = NoPositionFactors") (simp_all add: q)
  have hr': "instrumentPointingSolveOption s = NoPointingFactors
      \<or> (case m_instrumentRotation this of
            None \<Rightarrow> False
          | Some q \<Rightarrow> holdsCoefficients ?a (rotations ?st1 q))"
    using hr by (cases "instrumentPointingSolveOption s = NoPointingFactors") (simp_all add: r)
  show ?thesis
    unfolding wellFormed_def sel option.case
    using ne hs1 cp cr l1 hp' hr' by blast
qed

lemma fold_append_image:
  "fold append_image rest this = this\<lparr> images := images this @ rest \<rparr>"
  by (induction rest arbitrary: this) (simp_all add: append_image_def)

text \<open>
  The constructor from a primary image, \<^verbatim>\<open>append\<close> and \<^verbatim>\<open>setSolveSettings\<close> yield a
  well-formed observation when the images have live sources and the sources of the
  primary image store a coefficient for every solved one.
\<close>

lemma constructed_wellFormed:
  fixes s :: BundleObservationSolveSettings
  assumes src: "list_all (\<lambda>img. cameraInstrumentPosition img \<noteq> None
                     \<and> cameraInstrumentRotation img \<noteq> None) (img # rest)"
    and pres: "sigmasPresent (numberCameraPositionCoefficientsSolved s) (aprioriPositionSigmas s)"
      "sigmasPresent (numberCameraAngleCoefficientsSolved s) (aprioriPointingSigmas s)"
    and q: "cameraInstrumentPosition img = Some q"
      "holdsCoefficients (numberCameraPositionCoefficientsSolved s) (positions st q)"
    and r: "cameraInstrumentRotation img = Some r"
      "holdsCoefficients (numberCameraAngleCoefficientsSolved s) (rotations st r)"
  shows "wellFormed (observationOf (img # rest) s) st"
proof -
  let ?base = "fold append_image rest (BundleObservation_new (Some img) ''obs'' ''inst'' None)"
  let ?N = "3 * numberCameraPositionCoefficientsSolved s
            + pointingBlocks s * numberCameraAngleCoefficientsSolved s"
  from setSolveSettings_slots[OF pres, of ?base] obtain aps ws where
    run: "setSolveSettings s ?base =
        Inr (True, ?base\<lparr> m_solveSettings := Some s, m_weights := ws,
                          m_corrections := replicate ?N 0, m_aprioriSigmas := aps,
                          m_adjustedSigmas := replicate ?N 0 \<rparr>)"
    by blast
  have obs: "observationOf (img # rest) s =
      ?base\<lparr> m_solveSettings := Some s, m_weights := ws,
                          m_corrections := replicate ?N 0, m_aprioriSigmas := aps,
                          m_adjustedSigmas := replicate ?N 0 \<rparr>"
    by (simp add: observationOf_def run)
  have base: "images ?base = img # rest"
    "m_instrumentPosition ?base = cameraInstrumentPosition img"
    "m_instrumentRotation ?base = cameraInstrumentRotation img"
    by (simp_all add: fold_append_image BundleObservation_new_def BundleObservation_default_def)
  show ?thesis
    unfolding obs wellFormed_def
    using src q r by (simp add: base haveSources_def)
qed

text \<open>
  C8, as the code has it. On a well-formed observation, for two correction vectors of the
  length of the parameter block: when adding the two entries one after the other gives
  what adding their sum gives, for every accumulator entry and every solved coefficient
  (as it does when no addition rounds) and all the sums are finite, applying the first
  vector and then the second returns true twice and ends in the same observation (the
  accumulator included) and the same stores (every coefficient of every source) as
  applying their sum once.
\<close>

theorem corrections_add_up:
  assumes wf: "wellFormed this st" and set: "m_solveSettings this = Some s"
    and len: "numberParameters this = Inr (length c1)" "length c2 = length c1"
    and assoc: "additionsAssociate c1 c2 this s st"
  shows "\<exists>this' st'.
      applyParameterCorrections (map2 dadd c1 c2) this st = Inr (Returned True, this', st')
    \<and> andThen (applyParameterCorrections c1 this st)
         (\<lambda>(r, this1, st1). applyParameterCorrections c2 this1 st1)
       = Inr (Returned True, this', st')"
proof -
  let ?N = "3 * numberCameraPositionCoefficientsSolved s
              + pointingBlocks s * numberCameraAngleCoefficientsSolved s"
  let ?c12 = "map2 dadd c1 c2"
  have N1: "?N = length c1"
    using len(1) set
    by (simp add: numberParameters_def numberPositionParameters_def
        numberPointingParameters_def pointingBlocks_def Let_def split: if_splits)
  have N2: "?N = length c2" and N12: "?N = length ?c12"
    using N1 len(2) by simp_all
  let ?this1 = "this\<lparr> m_corrections := map2 dadd (m_corrections this) c1 \<rparr>"
  let ?st1 = "correctedRotations c1 this s (correctedPositions c1 this s st)"
  have lc: "length (m_corrections this) = length c1"
    using wf set N1 by (simp add: wellFormed_def)
  have first: "applyParameterCorrections c1 this st = Inr (Returned True, ?this1, ?st1)"
    by (rule applyParameterCorrections_wellFormed[OF wf set N1])
  have wf1: "wellFormed ?this1 ?st1"
    by (rule wellFormed_after[OF wf set N1])
  have set1: "m_solveSettings ?this1 = Some s" using set by simp
  have second: "applyParameterCorrections c2 ?this1 ?st1 =
      Inr (Returned True, ?this1\<lparr> m_corrections := map2 dadd (m_corrections ?this1) c2 \<rparr>,
           correctedRotations c2 ?this1 s (correctedPositions c2 ?this1 s ?st1))"
    by (rule applyParameterCorrections_wellFormed[OF wf1 set1 N2])
  have once: "applyParameterCorrections ?c12 this st =
      Inr (Returned True, this\<lparr> m_corrections := map2 dadd (m_corrections this) ?c12 \<rparr>,
           correctedRotations ?c12 this s (correctedPositions ?c12 this s st))"
    by (rule applyParameterCorrections_wellFormed[OF wf set N12])
  have pos2: "correctedPositions c2 this s ?st1 =
      correctedRotations c1 this s (correctedPositions ?c12 this s st)"
  proof (rule Stores.equality)
    have "positions (correctedPositions c2 this s ?st1)
        = positions (correctedPositions c2 this s (correctedPositions c1 this s st))"
      by (rule correctedPositions_cong) simp
    then show "positions (correctedPositions c2 this s ?st1) =
      positions (correctedRotations c1 this s (correctedPositions ?c12 this s st))"
      using correctedPositions_twice[OF wf set N1 len(2) assoc refl] by simp
    have "rotations (correctedRotations c1 this s (correctedPositions c1 this s st))
        = rotations (correctedRotations c1 this s (correctedPositions ?c12 this s st))"
      by (rule correctedRotations_cong) simp
    then show "rotations (correctedPositions c2 this s ?st1) =
      rotations (correctedRotations c1 this s (correctedPositions ?c12 this s st))"
      by simp
  qed simp
  have st2: "correctedRotations c2 this s (correctedPositions c2 this s ?st1)
      = correctedRotations ?c12 this s (correctedPositions ?c12 this s st)"
    unfolding pos2 by (rule correctedRotations_twice[OF wf set N1 len(2) assoc]) simp
  have acc: "map2 dadd (map2 dadd (m_corrections this) c1) c2
      = map2 dadd (m_corrections this) ?c12"
    using assoc by (intro accumulator_twice[OF lc len(2)]) (simp add: additionsAssociate_def)
  show ?thesis
    using first second once st2 acc by simp
qed


text \<open>
  \<^verbatim>\<open>GetPolynomial\<close> replaces the vectors it is given, whatever size they were declared
  with.
\<close>

lemma GetPolynomial_replaces:
  "GetPolynomial t out = (coefficients1 t, coefficients2 t, coefficients3 t)"
  by (simp add: GetPolynomial_def)


lemmas observation_eval = observationOf_def BundleObservation_new_def BundleObservation_default_def
  append_image_def imageAt_def weight_eval

lemma positionOnly_observation:
  "observationOf [imageAt None None] positionOnlySettings =
     \<lparr> images = [imageAt None None], m_serialNumbers = [''sn''], m_imageNames = [''image.cub''],
       m_parameterNamesList = [], m_observationNumber = ''obs'', m_instrumentId = ''inst'',
       m_instrumentRotation = None, m_instrumentPosition = None,
       m_bundleTargetBody = None, m_solveSettings = Some positionOnlySettings, m_index = 0,
       m_weights = [1000000, 1000000, 1000000], m_corrections = [0, 0, 0],
       m_aprioriSigmas = [1, 1, 1], m_adjustedSigmas = [0, 0, 0] \<rparr>"
  by (simp add: observation_eval positionOnlySettings_def)

lemmas apply_eval = applyParameterCorrections_def applyParameterCorrections_try_def
  positionBlock_def pointingBlock_def positionBuffers_def pointingBuffers_def GetPolynomial_def
  addCorrection_def setImagePosition_def setImageRotation_def plusAssign_def
  SetPolynomialCoefficients_def sourceOf_def storesOf_def settingsOf_def unroll

text \<open>
  C1. No call of \<^verbatim>\<open>applyParameterCorrections\<close> hands an exception to its caller. At an
  observation whose primary image has no camera, position solved, the body of the
  \<^verbatim>\<open>try\<close> throws the exception for the null position source, and the call returns
  true with nothing changed.
\<close>

theorem missing_position_source_returns_true:
  "(\<forall>corrections this st e this' st'.
      applyParameterCorrections corrections this st \<noteq> Inr (Threw e, this', st'))
   \<and> applyParameterCorrections_try [1, 1, 1]
      (observationOf [imageAt None None] positionOnlySettings) (storesOf (sourceOf [0] [0] [0]))
    = Inr (Some (IException Unknown
             ''Instrument position is NULL, but position solve option is PositionOnly''),
           observationOf [imageAt None None] positionOnlySettings, storesOf (sourceOf [0] [0] [0]))
   \<and> applyParameterCorrections [1, 1, 1]
      (observationOf [imageAt None None] positionOnlySettings) (storesOf (sourceOf [0] [0] [0]))
    = Inr (Returned True,
           observationOf [imageAt None None] positionOnlySettings, storesOf (sourceOf [0] [0] [0]))"
proof (intro conjI allI)
  fix corrections this st e this' st'
  show "applyParameterCorrections corrections this st \<noteq> Inr (Threw e, this', st')"
    by (cases "applyParameterCorrections_try corrections this st")
      (auto simp: applyParameterCorrections_def Let_def split: option.splits)
next
  show "applyParameterCorrections_try [1, 1, 1]
      (observationOf [imageAt None None] positionOnlySettings) (storesOf (sourceOf [0] [0] [0]))
    = Inr (Some (IException Unknown
             ''Instrument position is NULL, but position solve option is PositionOnly''),
           observationOf [imageAt None None] positionOnlySettings, storesOf (sourceOf [0] [0] [0]))"
    unfolding positionOnly_observation
    by (simp add: apply_eval positionOnlySettings_def)
next
  show "applyParameterCorrections [1, 1, 1]
      (observationOf [imageAt None None] positionOnlySettings) (storesOf (sourceOf [0] [0] [0]))
    = Inr (Returned True,
           observationOf [imageAt None None] positionOnlySettings, storesOf (sourceOf [0] [0] [0]))"
    unfolding positionOnly_observation
    by (simp add: apply_eval positionOnlySettings_def)
qed


lemma andThen_eq_Inr:
  "andThen r f = Inr y \<longleftrightarrow> (\<exists>x. r = Inr x \<and> f x = Inr y)"
  by (cases r) simp_all











lemma pair_observation:
  "observationOf [imageAt (Some 0) (Some 0), imageAt (Some 1) (Some 1)] mixedSettings =
     \<lparr> images = [imageAt (Some 0) (Some 0), imageAt (Some 1) (Some 1)],
       m_serialNumbers = [''sn''], m_imageNames = [''image.cub''],
       m_parameterNamesList = [], m_observationNumber = ''obs'', m_instrumentId = ''inst'',
       m_instrumentRotation = Some 0, m_instrumentPosition = Some 0,
       m_bundleTargetBody = None, m_solveSettings = Some mixedSettings, m_index = 0,
       m_weights = [1000000, 1000000, 1000000,
          1 / (DEG2RAD * DEG2RAD), 1 / (DEG2RAD * DEG2RAD), 1 / (DEG2RAD * DEG2RAD),
          1 / (DEG2RAD * DEG2RAD), 1 / (DEG2RAD * DEG2RAD), 1 / (DEG2RAD * DEG2RAD)],
       m_corrections = [0, 0, 0, 0, 0, 0, 0, 0, 0],
       m_aprioriSigmas = [1, 1, 1, 1, 1, 1, 1, 1, 1],
       m_adjustedSigmas = [0, 0, 0, 0, 0, 0, 0, 0, 0] \<rparr>"
  by (simp add: observation_eval mixedSettings_def)



text \<open>The theorem at an observation of two images, nine parameters.\<close>

theorem corrections_add_up_witness:
  "wellFormed (observationOf [imageAt (Some 0) (Some 0), imageAt (Some 1) (Some 1)] mixedSettings)
     (storesOf (sourceOf [0, 0] [0, 0] [0, 0]))
   \<and> numberParameters
        (observationOf [imageAt (Some 0) (Some 0), imageAt (Some 1) (Some 1)] mixedSettings)
      = Inr (length [1, 2, 3, 4, 5, 6, 7, 8, 9 :: real])
   \<and> length [9, 8, 7, 6, 5, 4, 3, 2, 1 :: real] = length [1, 2, 3, 4, 5, 6, 7, 8, 9 :: real]
   \<and> additionsAssociate [1, 2, 3, 4, 5, 6, 7, 8, 9] [9, 8, 7, 6, 5, 4, 3, 2, 1]
        (observationOf [imageAt (Some 0) (Some 0), imageAt (Some 1) (Some 1)] mixedSettings)
        mixedSettings (storesOf (sourceOf [0, 0] [0, 0] [0, 0]))
   \<and> (\<exists>this' st'.
        applyParameterCorrections
          (map2 dadd [1, 2, 3, 4, 5, 6, 7, 8, 9] [9, 8, 7, 6, 5, 4, 3, 2, 1])
          (observationOf [imageAt (Some 0) (Some 0), imageAt (Some 1) (Some 1)] mixedSettings)
          (storesOf (sourceOf [0, 0] [0, 0] [0, 0])) = Inr (Returned True, this', st')
      \<and> andThen
          (applyParameterCorrections [1, 2, 3, 4, 5, 6, 7, 8, 9]
            (observationOf [imageAt (Some 0) (Some 0), imageAt (Some 1) (Some 1)] mixedSettings)
            (storesOf (sourceOf [0, 0] [0, 0] [0, 0])))
          (\<lambda>(r, this1, st1).
             applyParameterCorrections [9, 8, 7, 6, 5, 4, 3, 2, 1] this1 st1)
        = Inr (Returned True, this', st'))"
proof -
  let ?obs = "observationOf [imageAt (Some 0) (Some 0), imageAt (Some 1) (Some 1)] mixedSettings"
  let ?st = "storesOf (sourceOf [0, 0] [0, 0] [0, 0])"
  have wf: "wellFormed ?obs ?st"
    unfolding pair_observation
    by (simp add: wellFormed_def haveSources_def imageAt_def mixedSettings_def settingsOf_def
        pointingBlocks_def holdsCoefficients_def storesOf_def sourceOf_def)
  have set: "m_solveSettings ?obs = Some mixedSettings"
    unfolding pair_observation by simp
  have np: "numberParameters ?obs = Inr (length [1, 2, 3, 4, 5, 6, 7, 8, 9 :: real])"
    unfolding pair_observation
    by (simp add: numberParameters_def numberPositionParameters_def numberPointingParameters_def
        mixedSettings_def settingsOf_def)
  have ln: "length [9, 8, 7, 6, 5, 4, 3, 2, 1 :: real] = length [1, 2, 3, 4, 5, 6, 7, 8, 9 :: real]"
    by simp
  have assoc: "additionsAssociate [1, 2, 3, 4, 5, 6, 7, 8, 9] [9, 8, 7, 6, 5, 4, 3, 2, 1]
        ?obs mixedSettings ?st"
    unfolding pair_observation
    by (simp add: additionsAssociate_def sliceAssociates_def sumsAssociate_def positionIndex_def
        mixedSettings_def settingsOf_def storesOf_def sourceOf_def dadd_ints finiteDouble_def)
  from corrections_add_up[OF wf set np ln assoc] wf np ln assoc show ?thesis
    by blast
qed

lemma positionSourced_observation:
  "observationOf [imageAt (Some 0) (Some 0)] positionOnlySettings =
     \<lparr> images = [imageAt (Some 0) (Some 0)], m_serialNumbers = [''sn''],
       m_imageNames = [''image.cub''],
       m_parameterNamesList = [], m_observationNumber = ''obs'', m_instrumentId = ''inst'',
       m_instrumentRotation = Some 0, m_instrumentPosition = Some 0,
       m_bundleTargetBody = None, m_solveSettings = Some positionOnlySettings, m_index = 0,
       m_weights = [1000000, 1000000, 1000000], m_corrections = [0, 0, 0],
       m_aprioriSigmas = [1, 1, 1], m_adjustedSigmas = [0, 0, 0] \<rparr>"
  by (simp add: observation_eval positionOnlySettings_def)

text \<open>
  The doubles from \<open>2\<^sup>5\<^sup>3\<close> to \<open>2\<^sup>5\<^sup>4\<close> are the even integers: \<open>10\<^sup>1\<^sup>6 + 1\<close> rounds to
  \<open>10\<^sup>1\<^sup>6\<close>, and \<open>10\<^sup>1\<^sup>6 + 2\<close> is exact.
\<close>

lemma dadd_rounds:
  "dadd 10000000000000000 1 = 10000000000000000"
  "dadd 10000000000000000 2 = 10000000000000002"
  by (simp_all add: double_eval Let_def)

text \<open>
  C8 as it is worded fails: on a well-formed observation whose X coefficient is
  \<open>10\<^sup>1\<^sup>6\<close>, applying the correction 1 twice leaves the coefficient at \<open>10\<^sup>1\<^sup>6\<close>, while
  applying the sum 2 once ends at \<open>10\<^sup>1\<^sup>6 + 2\<close>. The accumulators agree.
\<close>

theorem rounded_corrections_differ:
  "wellFormed (observationOf [imageAt (Some 0) (Some 0)] positionOnlySettings)
     (storesOf (sourceOf [10000000000000000] [0] [0]))
   \<and> numberParameters (observationOf [imageAt (Some 0) (Some 0)] positionOnlySettings) = Inr 3
   \<and> andThen
        (applyParameterCorrections [1, 0, 0]
          (observationOf [imageAt (Some 0) (Some 0)] positionOnlySettings)
          (storesOf (sourceOf [10000000000000000] [0] [0])))
        (\<lambda>(r, this1, st1). applyParameterCorrections [1, 0, 0] this1 st1)
      = Inr (Returned True,
          (observationOf [imageAt (Some 0) (Some 0)] positionOnlySettings)
            \<lparr> m_corrections := [2, 0, 0] \<rparr>,
          \<lparr> positions = (positions (storesOf (sourceOf [10000000000000000] [0] [0])))
               (0 := sourceOf [10000000000000000] [0] [0]),
            rotations = rotations (storesOf (sourceOf [10000000000000000] [0] [0])) \<rparr>)
   \<and> applyParameterCorrections (map2 dadd [1, 0, 0] [1, 0, 0])
          (observationOf [imageAt (Some 0) (Some 0)] positionOnlySettings)
          (storesOf (sourceOf [10000000000000000] [0] [0]))
      = Inr (Returned True,
          (observationOf [imageAt (Some 0) (Some 0)] positionOnlySettings)
            \<lparr> m_corrections := [2, 0, 0] \<rparr>,
          \<lparr> positions = (positions (storesOf (sourceOf [10000000000000000] [0] [0])))
               (0 := sourceOf [10000000000000002] [0] [0]),
            rotations = rotations (storesOf (sourceOf [10000000000000000] [0] [0])) \<rparr>)
   \<and> sourceOf [10000000000000000] [0] [0] \<noteq> sourceOf [10000000000000002] [0] [0]"
proof (intro conjI)
  show "wellFormed (observationOf [imageAt (Some 0) (Some 0)] positionOnlySettings)
     (storesOf (sourceOf [10000000000000000] [0] [0]))"
    unfolding positionSourced_observation
    by (simp add: wellFormed_def haveSources_def imageAt_def positionOnlySettings_def
        settingsOf_def pointingBlocks_def holdsCoefficients_def storesOf_def sourceOf_def)
  show "numberParameters (observationOf [imageAt (Some 0) (Some 0)] positionOnlySettings) = Inr 3"
    unfolding positionSourced_observation
    by (simp add: numberParameters_def numberPositionParameters_def numberPointingParameters_def
        positionOnlySettings_def settingsOf_def)
  show "andThen
        (applyParameterCorrections [1, 0, 0]
          (observationOf [imageAt (Some 0) (Some 0)] positionOnlySettings)
          (storesOf (sourceOf [10000000000000000] [0] [0])))
        (\<lambda>(r, this1, st1). applyParameterCorrections [1, 0, 0] this1 st1)
      = Inr (Returned True,
          (observationOf [imageAt (Some 0) (Some 0)] positionOnlySettings)
            \<lparr> m_corrections := [2, 0, 0] \<rparr>,
          \<lparr> positions = (positions (storesOf (sourceOf [10000000000000000] [0] [0])))
               (0 := sourceOf [10000000000000000] [0] [0]),
            rotations = rotations (storesOf (sourceOf [10000000000000000] [0] [0])) \<rparr>)"
    unfolding positionSourced_observation
    by (simp add: apply_eval dadd_ints dadd_rounds positionOnlySettings_def imageAt_def)
  show "applyParameterCorrections (map2 dadd [1, 0, 0] [1, 0, 0])
          (observationOf [imageAt (Some 0) (Some 0)] positionOnlySettings)
          (storesOf (sourceOf [10000000000000000] [0] [0]))
      = Inr (Returned True,
          (observationOf [imageAt (Some 0) (Some 0)] positionOnlySettings)
            \<lparr> m_corrections := [2, 0, 0] \<rparr>,
          \<lparr> positions = (positions (storesOf (sourceOf [10000000000000000] [0] [0])))
               (0 := sourceOf [10000000000000002] [0] [0]),
            rotations = rotations (storesOf (sourceOf [10000000000000000] [0] [0])) \<rparr>)"
    unfolding positionSourced_observation
    by (simp add: apply_eval dadd_ints dadd_rounds positionOnlySettings_def imageAt_def)
  show "sourceOf [10000000000000000] [0] [0] \<noteq> sourceOf [10000000000000002] [0] [0]"
    by (simp add: sourceOf_def)
qed

subsection \<open>Trajectory initialization\<close>







subsection \<open>Reporting and copying\<close>

lemma IsSpecial_nonneg: "0 \<le> d \<Longrightarrow> \<not> IsSpecial d"
proof -
  have "VALID_MIN8 < 0" by (simp add: VALID_MIN8_def)
  then show "0 \<le> d \<Longrightarrow> \<not> IsSpecial d" by (simp add: IsSpecial_def)
qed

lemma anglesNoTwist_observation:
  "observationOf [imageAt (Some 0) (Some 0)] anglesNoTwistSettings =
     \<lparr> images = [imageAt (Some 0) (Some 0)], m_serialNumbers = [''sn''],
       m_imageNames = [''image.cub''],
       m_parameterNamesList = [], m_observationNumber = ''obs'', m_instrumentId = ''inst'',
       m_instrumentRotation = Some 0, m_instrumentPosition = Some 0,
       m_bundleTargetBody = None, m_solveSettings = Some anglesNoTwistSettings, m_index = 0,
       m_weights = [1 / (DEG2RAD * DEG2RAD), 1 / (DEG2RAD * DEG2RAD)],
       m_corrections = [0, 0],
       m_aprioriSigmas = [1, 1],
       m_adjustedSigmas = [0, 0] \<rparr>"
  by (simp add: observation_eval anglesNoTwistSettings_def)

lemmas format_eval = formatBundleOutputString_def parameterValuesAndNames_def
  reportPositionCoefficients_def reportPointingCoefficients_def
  numberPositionParameters_def numberPointingParameters_def numberParameters_def
  pushParameter_def positionRow_def pointingRow_def parameterName_def parameterList_def
  GetPolynomial_def sourceOf_def storesOf_def settingsOf_def IsSpecial_nonneg unroll

lemma andThen_InrE:
  assumes "andThen r f = Inr y"
  obtains x where "r = Inr x" "f x = Inr y"
  using assms by (cases r) simp_all

lemma pushLoop_lengths:
  assumes "forLoop n (pushParameter label conv coef) vn = Inr vn'"
  shows "length (fst vn') = length (fst vn) + n \<and> length (snd vn') = length (snd vn) + n"
  using assms
proof (induction n arbitrary: vn')
  case 0
  then show ?case by simp
next
  case (Suc n)
  from Suc.prems have "andThen (forLoop n (pushParameter label conv coef) vn)
      (pushParameter label conv coef n) = Inr vn'"
    by (simp only: forLoop_Suc)
  then obtain vn1 where
    run: "forLoop n (pushParameter label conv coef) vn = Inr vn1"
    and step: "pushParameter label conv coef n vn1 = Inr vn'"
    by (rule andThen_InrE)
  from step have "length (fst vn') = Suc (length (fst vn1))"
    "length (snd vn') = Suc (length (snd vn1))"
    by (cases vn1; simp add: pushParameter_def split: if_splits; fastforce)+
  with Suc.IH[OF run] show ?case by simp
qed

lemma pushBlocks_lengths:
  assumes "andThen (forLoop n (pushParameter l1 conv c1) vn) (\<lambda>vn.
           andThen (forLoop n (pushParameter l2 conv c2) vn) (\<lambda>vn.
                    forLoop n (pushParameter l3 conv c3) vn)) = Inr vn'"
  shows "length (fst vn') = length (fst vn) + 3 * n \<and> length (snd vn') = length (snd vn) + 3 * n"
proof -
  from assms obtain vn1 where
    r1: "forLoop n (pushParameter l1 conv c1) vn = Inr vn1"
    and rest: "andThen (forLoop n (pushParameter l2 conv c2) vn1)
                 (\<lambda>vn. forLoop n (pushParameter l3 conv c3) vn) = Inr vn'"
    by (rule andThen_InrE)
  from rest obtain vn2 where
    r2: "forLoop n (pushParameter l2 conv c2) vn1 = Inr vn2"
    and r3: "forLoop n (pushParameter l3 conv c3) vn2 = Inr vn'"
    by (rule andThen_InrE)
  from pushLoop_lengths[OF r1] pushLoop_lengths[OF r2] pushLoop_lengths[OF r3]
  show ?thesis by simp
qed

lemma parameterValuesAndNames_lengths:
  assumes "parameterValuesAndNames this s st = Inr (vs, ns)"
  shows "length ns = 3 * numberCameraPositionCoefficientsSolved s
                   + 3 * numberCameraAngleCoefficientsSolved s"
proof -
  let ?p = "numberCameraPositionCoefficientsSolved s"
  let ?a = "numberCameraAngleCoefficientsSolved s"
  obtain cx cy cz where cp: "reportPositionCoefficients this s st = (cx, cy, cz)"
    by (cases "reportPositionCoefficients this s st") auto
  obtain ra dec twi where cr: "reportPointingCoefficients this s st = (ra, dec, twi)"
    by (cases "reportPointingCoefficients this s st") auto
  from assms obtain vn1 where
    pos: "(if ?p > 0 then
                andThen (forLoop ?p (pushParameter ''  X  '' (\<lambda>v. v) cx) ([], [])) (\<lambda>vn.
                andThen (forLoop ?p (pushParameter ''  Y  '' (\<lambda>v. v) cy) vn) (\<lambda>vn.
                         forLoop ?p (pushParameter ''  Z  '' (\<lambda>v. v) cz) vn))
              else Inr ([], [])) = Inr vn1"
    and pnt: "(if ?a > 0 then
               andThen (forLoop ?a (pushParameter '' RA  '' (\<lambda>v. v * RAD2DEG) ra) vn1) (\<lambda>vn.
               andThen (forLoop ?a (pushParameter ''DEC  '' (\<lambda>v. v * RAD2DEG) dec) vn) (\<lambda>vn.
                        forLoop ?a (pushParameter ''TWI  '' (\<lambda>v. v * RAD2DEG) twi) vn))
             else Inr vn1) = Inr (vs, ns)"
    unfolding parameterValuesAndNames_def Let_def cp cr prod.case andThen_eq_Inr
    by blast
  have l1: "length (snd vn1) = 3 * ?p"
  proof (cases "?p > 0")
    case True
    with pos pushBlocks_lengths[of ?p _ _ cx "([], [])" _ cy _ cz vn1] show ?thesis by simp
  next
    case False
    with pos show ?thesis by auto
  qed
  show ?thesis
  proof (cases "?a > 0")
    case True
    with pnt pushBlocks_lengths[of ?a _ _ ra vn1 _ dec _ twi "(vs, ns)"] l1 show ?thesis by simp
  next
    case False
    with pnt l1 show ?thesis by auto
  qed
qed

lemma forEach_snoc:
  "forEach (xs @ [i]) body s = andThen (forEach xs body s) (body i)"
  by (cases "forEach xs body s") (simp_all add: forEach_append split: sum.splits)

lemma positionRows_length:
  assumes "forEach [lo..<lo + n] (positionRow e this ns vs) rows = Inr rows'"
  shows "length rows' = length rows + n"
  using assms
proof (induction n arbitrary: rows')
  case 0
  then show ?case by simp
next
  case (Suc n)
  have "[lo..<lo + Suc n] = [lo..<lo + n] @ [lo + n]" by simp
  with Suc.prems have "andThen (forEach [lo..<lo + n] (positionRow e this ns vs) rows)
      (positionRow e this ns vs (lo + n)) = Inr rows'"
    by (simp only: forEach_snoc)
  then obtain rows1 where
    run: "forEach [lo..<lo + n] (positionRow e this ns vs) rows = Inr rows1"
    and step: "positionRow e this ns vs (lo + n) rows1 = Inr rows'"
    by (rule andThen_InrE)
  from step have "length rows' = Suc (length rows1)"
    by (auto simp: positionRow_def Let_def split: if_splits)
  with Suc.IH[OF run] show ?case by simp
qed

lemma pointingRows_length:
  assumes "forEach [lo..<lo + n] (pointingRow e this ns vs) rows = Inr rows'"
  shows "length rows' = length rows + n"
  using assms
proof (induction n arbitrary: rows')
  case 0
  then show ?case by simp
next
  case (Suc n)
  have "[lo..<lo + Suc n] = [lo..<lo + n] @ [lo + n]" by simp
  with Suc.prems have "andThen (forEach [lo..<lo + n] (pointingRow e this ns vs) rows)
      (pointingRow e this ns vs (lo + n)) = Inr rows'"
    by (simp only: forEach_snoc)
  then obtain rows1 where
    run: "forEach [lo..<lo + n] (pointingRow e this ns vs) rows = Inr rows1"
    and step: "pointingRow e this ns vs (lo + n) rows1 = Inr rows'"
    by (rule andThen_InrE)
  from step have "length rows' = Suc (length rows1)"
    by (auto simp: pointingRow_def Let_def split: if_splits)
  with Suc.IH[OF run] show ?case by simp
qed

text \<open>
  Whenever the report is produced it has one row per parameter, and the recorded list
  of names has three entries per solved pointing coefficient, twist solved or not.
\<close>

lemma report_rows_and_names:
  assumes run: "formatBundleOutputString errorPropagation this st = Inr (rows, this')"
    and set: "m_solveSettings this = Some s"
  shows "numberParameters this = Inr (length rows)
    \<and> length (parameterList this') =
        3 * numberCameraPositionCoefficientsSolved s + 3 * numberCameraAngleCoefficientsSolved s"
proof -
  let ?np = "3 * numberCameraPositionCoefficientsSolved s"
  let ?na = "if solveTwist s then 3 * numberCameraAngleCoefficientsSolved s
             else 2 * numberCameraAngleCoefficientsSolved s"
  have n1: "numberPositionParameters this = Inr ?np"
    and n2: "numberPointingParameters this = Inr ?na"
    using set by (simp_all add: numberPositionParameters_def numberPointingParameters_def)
  from run[unfolded formatBundleOutputString_def set option.case n1 n2 andThen_Inr Let_def]
  obtain vn where
    pv: "parameterValuesAndNames this s st = Inr vn"
    and rest: "(case vn of (vs, ns) \<Rightarrow>
        andThen (forEach [0..<?np]
                   (positionRow errorPropagation (this\<lparr> m_parameterNamesList := ns \<rparr>) ns vs) [])
          (\<lambda>finalqStr.
        andThen (forEach [?np..<?np + ?na]
                   (pointingRow errorPropagation (this\<lparr> m_parameterNamesList := ns \<rparr>) ns vs)
                   finalqStr)
          (\<lambda>finalqStr. Inr (finalqStr, this\<lparr> m_parameterNamesList := ns \<rparr>))))
      = Inr (rows, this')"
    by (rule andThen_InrE)
  obtain vs ns where vn: "vn = (vs, ns)" by (cases vn)
  from rest[unfolded vn prod.case] obtain rows1 where
    r1: "forEach [0..<?np]
               (positionRow errorPropagation (this\<lparr> m_parameterNamesList := ns \<rparr>) ns vs) []
             = Inr rows1"
    and rest2: "andThen (forEach [?np..<?np + ?na]
                   (pointingRow errorPropagation (this\<lparr> m_parameterNamesList := ns \<rparr>) ns vs)
                   rows1)
          (\<lambda>finalqStr. Inr (finalqStr, this\<lparr> m_parameterNamesList := ns \<rparr>))
        = Inr (rows, this')"
    by (rule andThen_InrE)
  from rest2 obtain rows2 where
    r2: "forEach [?np..<?np + ?na]
               (pointingRow errorPropagation (this\<lparr> m_parameterNamesList := ns \<rparr>) ns vs) rows1
             = Inr rows2"
    and fin: "Inr (rows2, this\<lparr> m_parameterNamesList := ns \<rparr>) = (Inr (rows, this') :: fault + _)"
    by (rule andThen_InrE)
  from fin have rows: "rows2 = rows" and this': "this' = this\<lparr> m_parameterNamesList := ns \<rparr>"
    by simp_all
  have "[0..<?np] = [0..<0 + ?np]" by simp
  with r1 have "forEach [0..<0 + ?np]
               (positionRow errorPropagation (this\<lparr> m_parameterNamesList := ns \<rparr>) ns vs) []
             = Inr rows1" by (simp only:)
  from positionRows_length[OF this] have l1: "length rows1 = ?np" by simp
  from pointingRows_length[OF r2] rows have l2: "length rows = length rows1 + ?na" by simp
  have np: "numberParameters this = Inr (?np + ?na)"
    unfolding numberParameters_def n1 n2 andThen_Inr ..
  have names: "length ns = 3 * numberCameraPositionCoefficientsSolved s
                   + 3 * numberCameraAngleCoefficientsSolved s"
    by (rule parameterValuesAndNames_lengths[OF pv[unfolded vn]])
  show ?thesis
    unfolding np this' parameterList_def using l1 l2 names by simp
qed

text \<open>
  C9 at pointing solved without twist, one coefficient: there are 2 parameters and the
  report has 2 rows, RA and DEC, but the list of names that the function records, and
  that \<^verbatim>\<open>parameterList()\<close> returns, has a third entry for Twist.
\<close>

theorem twist_named_when_not_solved:
  "numberParameters (observationOf [imageAt (Some 0) (Some 0)] anglesNoTwistSettings) = Inr 2
   \<and> formatBundleOutputString False
        (observationOf [imageAt (Some 0) (Some 0)] anglesNoTwistSettings)
        (storesOf (sourceOf [0] [0] [0]))
      = Inr ([\<lparr> rowName = '' RA  (t0)'', rowInitial = 0, rowCorrection = 0, rowFinal = 0,
                 rowSigma = Number 1, rowAdjustedSigma = Text ''N/A'' \<rparr>,
              \<lparr> rowName = ''DEC  (t0)'', rowInitial = 0, rowCorrection = 0, rowFinal = 0,
                 rowSigma = Number 1, rowAdjustedSigma = Text ''N/A'' \<rparr>],
             (observationOf [imageAt (Some 0) (Some 0)] anglesNoTwistSettings)
               \<lparr> m_parameterNamesList := ['' RA  (t0)'', ''DEC  (t0)'', ''TWI  (t0)''] \<rparr>)
   \<and> parameterList
        ((observationOf [imageAt (Some 0) (Some 0)] anglesNoTwistSettings)
               \<lparr> m_parameterNamesList := ['' RA  (t0)'', ''DEC  (t0)'', ''TWI  (t0)''] \<rparr>)
      = ['' RA  (t0)'', ''DEC  (t0)'', ''TWI  (t0)'']"
  unfolding anglesNoTwist_observation
  by (simp add: format_eval anglesNoTwistSettings_def)

text \<open>
  C10 at an observation of one image with three parameters: the copy constructor leaves
  the copy without member images and with empty weights, corrections and sigmas, and
  so does the assignment to a default-constructed observation; the serial numbers, the
  identifiers, the two trajectory pointers and the settings are taken over.
\<close>

theorem copy_leaves_parameter_arrays_empty:
  "m_weights (observationOf [imageAt (Some 0) (Some 0)] positionOnlySettings)
     = [1000000, 1000000, 1000000]
   \<and> BundleObservation_copy (observationOf [imageAt (Some 0) (Some 0)] positionOnlySettings)
     = \<lparr> images = [], m_serialNumbers = [''sn''], m_imageNames = [],
         m_parameterNamesList = [], m_observationNumber = ''obs'', m_instrumentId = ''inst'',
         m_instrumentRotation = Some 0, m_instrumentPosition = Some 0,
         m_bundleTargetBody = None, m_solveSettings = Some positionOnlySettings, m_index = 0,
         m_weights = [], m_corrections = [], m_aprioriSigmas = [], m_adjustedSigmas = [] \<rparr>
   \<and> BundleObservation_assign BundleObservation_default
        (observationOf [imageAt (Some 0) (Some 0)] positionOnlySettings)
     = \<lparr> images = [], m_serialNumbers = [''sn''], m_imageNames = [],
         m_parameterNamesList = [], m_observationNumber = ''obs'', m_instrumentId = ''inst'',
         m_instrumentRotation = Some 0, m_instrumentPosition = Some 0,
         m_bundleTargetBody = None, m_solveSettings = Some positionOnlySettings, m_index = 0,
         m_weights = [], m_corrections = [], m_aprioriSigmas = [], m_adjustedSigmas = [] \<rparr>"
  by (simp add: observation_eval positionOnlySettings_def BundleObservation_copy_def
      BundleObservation_assign_def)

end
